theory Spec2Isabelle
  imports Main "HOL-Library.Word"
begin

section \<open>Data model\<close>

text \<open>
  The OTP module (\<^verbatim>\<open>src/core/login/otp.js\<close>, and its later revision kept as
  \<^verbatim>\<open>unnamed/part_001\<close>) works on login trees held in memory, on login stashes
  mirrored on disk, and on kits that patch both.  JavaScript values are modelled as follows:
  a \<^verbatim>\<open>Uint8Array\<close> is a list of bytes, a \<^verbatim>\<open>Date\<close> is its number of milliseconds,
  a \<^verbatim>\<open>number\<close> that is only handed on (\<^verbatim>\<open>otpTimeout\<close>) is an \<open>int\<close>, an optional property
  (\<^verbatim>\<open>x?: T\<close>, tested with \<^verbatim>\<open>x != null\<close>) is an \<open>option\<close>, JSON on the wire is its text, and
  a rejected promise or a \<^verbatim>\<open>throw\<close> is an \<open>Inl\<close>.
\<close>

type_synonym bytes = "8 word list"
type_synonym date = nat
type_synonym json = string

datatype error =
    Error string
  | TypeError
  | NetworkError
  | ServerError nat
  | MissingNode
  | StashWriteError

text \<open>
  \<open>Error m\<close> is \<^verbatim>\<open>new Error(m)\<close>, the only error the OTP module itself constructs.
  \<open>TypeError\<close> is what JavaScript raises when \<^verbatim>\<open>const { loginTree } = accounts[accountId]\<close>
  destructures \<^verbatim>\<open>undefined\<close>.  The remaining constructors belong to the collaborators.
\<close>

subsection \<open>Options, payloads and requests\<close>

record EdgeAccountOptions =
  otp :: "string option"
  otpKey :: "string option"
  now :: "date option"

record ChangeOtpPayload =
  otpKey :: string
  otpTimeout :: int

record OtpResetPayload =
  otpResetDate :: date

record OtpResetRequest =
  userId :: string
  otpResetAuth :: string

record LoginRequest =
  userId :: string
  passwordAuth :: string
  otp :: string

text \<open>
  What one call of \<^verbatim>\<open>loginFetch\<close> puts on the wire: the request of a kit, addressed by a
  \<^verbatim>\<open>loginId\<close>, with its payload or without one; the request of \<^verbatim>\<open>serverLogin\<close>; the request
  of \<^verbatim>\<open>resetOtp\<close>.
\<close>

datatype body =
    KitBody string json
  | KitBodyNoData string
  | LoginBody LoginRequest
  | ResetBody OtpResetRequest

record FetchCall =
  httpMethod :: string
  path :: string
  body :: body

datatype response = Success json | NonSuccess nat | Unreachable

subsection \<open>Partial objects\<close>

text \<open>
  A kit carries \<^verbatim>\<open>Partial<LoginStash>\<close> and \<^verbatim>\<open>Partial<LoginTree>\<close> object literals.
  A property of such a literal is either not written at all, written with the value
  \<^verbatim>\<open>undefined\<close>, or written with a value.  Only the three OTP properties occur in the
  kits of this module, and each of these kits names its \<^verbatim>\<open>serverPath\<close>.
\<close>

datatype 'a patch = Absent | Undefined | Value 'a

record Partial =
  otpKey :: "string patch"
  otpResetDate :: "date patch"
  otpTimeout :: "int patch"

record LoginKit =
  serverMethod :: "string option"
  serverPath :: string
  server :: "json option"
  stash :: Partial
  login :: Partial
  loginId :: string

subsection \<open>Login trees and stashes\<close>

text \<open>
  Both trees share the identity and OTP properties; the in-memory tree adds the decrypted
  secrets, the stash adds \<^verbatim>\<open>lastLogin\<close>.  A tree node is its properties together with the
  ordered list of its children.
\<close>

record LoginBase =
  loginId :: string
  appId :: string
  username :: "string option"
  userId :: string
  otpKey :: "string option"
  otpResetDate :: "date option"
  otpTimeout :: "int option"

record LoginTreeProps = LoginBase +
  loginKey :: bytes
  passwordAuth :: "bytes option"
  recovery2Key :: "bytes option"

record LoginStashProps = LoginBase +
  lastLogin :: "date option"

datatype 'a node = Node (props: 'a) (children: "'a node list")

type_synonym LoginTree = "LoginTreeProps node"
type_synonym LoginStash = "LoginStashProps node"

record AccountState =
  login :: LoginTree
  loginTree :: LoginTree

text \<open>
  The part of the root state the module reads and writes: the table of logged-in accounts
  (\<^verbatim>\<open>ai.props.state.accounts\<close>), the stash trees as they stand on disk (one per user), the
  log of calls sent to the login server, and the number of random bytes drawn so far.
\<close>

record RootState =
  accounts :: "string \<rightharpoonup> AccountState"
  stashes :: "LoginStash list"
  sent :: "FetchCall list"
  drawn :: nat

text \<open>
  The functions and collaborators the module imports and whose code is not among the
  sources are parameters, gathered in one record that stands for \<^verbatim>\<open>ai\<close> and the imported
  modules: the one-time code generator of \<^verbatim>\<open>util/crypto/hotp.js\<close> and the clock it reads,
  \<^verbatim>\<open>fixOtpKey\<close>, the entropy source behind \<^verbatim>\<open>ai.props.io.random\<close>, the \<^verbatim>\<open>rfc4648\<close>
  encoders, \<^verbatim>\<open>hashUsername\<close>, the two cleaners of \<^verbatim>\<open>types/server-cleaners.js\<close>, the login
  server, the default method of a kit, the disk, the stash selectors and \<^verbatim>\<open>serverLogin\<close>.
\<close>

record ApiInput =
  otpCode :: "string \<Rightarrow> nat \<Rightarrow> string"
  clock :: nat
  fixOtpKey :: "string \<Rightarrow> string"
  entropy :: "nat \<Rightarrow> 8 word"
  base32_stringify :: "bytes \<Rightarrow> string"
  base64_stringify :: "bytes \<Rightarrow> string"
  hashUsername :: "string \<Rightarrow> bytes"
  wasChangeOtpPayload :: "ChangeOtpPayload \<Rightarrow> json"
  asOtpResetPayload :: "json \<Rightarrow> error + OtpResetPayload"
  loginServer :: "FetchCall \<Rightarrow> response"
  defaultMethod :: string
  diskWrite :: "LoginStash \<Rightarrow> bool"
  getStashById :: "RootState \<Rightarrow> string \<Rightarrow> error + (LoginStash \<times> LoginStash)"
  getStash :: "RootState \<Rightarrow> string \<Rightarrow> error + LoginStash"
  serverLogin :: "RootState \<Rightarrow> LoginStash \<Rightarrow> LoginStash \<Rightarrow> EdgeAccountOptions \<Rightarrow>
    LoginRequest \<Rightarrow> (unit \<Rightarrow> bytes) \<Rightarrow> (error + LoginTree) \<times> RootState"

section \<open>One-time codes\<close>

text \<open>
  Modelled from the spec: \<^verbatim>\<open>totp\<close> of \<^verbatim>\<open>util/crypto/hotp.js\<close>, which is not among the
  sources.  The spec gives it as "\<^verbatim>\<open>totp(key, timestamp?)\<close>: standard time-step one-time code
  generation from a base32 secret; accepts an explicit timestamp for testability".  The code
  generation itself is the parameter \<open>otpCode\<close>; the timestamp defaults to the clock.
\<close>

definition totp :: "ApiInput \<Rightarrow> string \<Rightarrow> nat option \<Rightarrow> string" where
  "totp ai key timestamp =
     otpCode ai key (case timestamp of Some t \<Rightarrow> t | None \<Rightarrow> clock ai)"

text \<open>\<^verbatim>\<open>getLoginOtp\<close>: the current code of a logged-in account, or nothing.\<close>

definition getLoginOtp :: "ApiInput \<Rightarrow> LoginTree \<Rightarrow> string option" where
  "getLoginOtp ai tree =
     (case LoginBase.otpKey (props tree) of
        Some key \<Rightarrow> Some (totp ai key None)
      | None \<Rightarrow> None)"

text \<open>
  \<^verbatim>\<open>/[0-9]+/.test(otp)\<close>: the pattern has no anchors, so the test succeeds as soon as some
  character of the string is a decimal digit.
\<close>

definition digit :: "char \<Rightarrow> bool" where
  "digit c = (c \<in> set ''0123456789'')"

definition test_digits :: "string \<Rightarrow> bool" where
  "test_digits s = list_ex digit s"

text \<open>
  \<^verbatim>\<open>getStashOtp\<close>.  The destructuring \<^verbatim>\<open>{ otp, otpKey = stash.otpKey } = opts\<close> takes the
  stash's key when the options give none (the declared type of \<^verbatim>\<open>opts.otpKey\<close> is
  \<^verbatim>\<open>string | undefined\<close>).  \<^verbatim>\<open>otp.length\<close> is the length of the string, which for the ASCII
  strings that codes and base32 secrets are is its number of characters.
\<close>

definition getStashOtp :: "ApiInput \<Rightarrow> LoginStash \<Rightarrow> EdgeAccountOptions \<Rightarrow> string option" where
  "getStashOtp ai stashNode opts =
     (let code = EdgeAccountOptions.otp opts;
          key = (case EdgeAccountOptions.otpKey opts of
                   None \<Rightarrow> LoginBase.otpKey (props stashNode)
                 | Some k \<Rightarrow> Some k)
      in case code of
           Some c \<Rightarrow>
             if test_digits c \<and> length c < 16 then Some c
             else Some (totp ai c None)
         | None \<Rightarrow>
             (case key of
                Some k \<Rightarrow> Some (totp ai k None)
              | None \<Rightarrow> None))"

section \<open>Searching and patching a tree\<close>

text \<open>
  Modelled from the spec: \<^verbatim>\<open>searchTree\<close> of \<^verbatim>\<open>core/login/login.js\<close>, which is not among
  the sources.  The spec gives it as a "depth-first search over the tree (root, then children
  in order) returning the first node satisfying \<^verbatim>\<open>predicate\<close>".  \<open>searchChildren\<close> is the same
  search over an ordered list of trees.
\<close>

fun searchTree :: "'a node \<Rightarrow> ('a node \<Rightarrow> bool) \<Rightarrow> 'a node option"
  and searchChildren :: "'a node list \<Rightarrow> ('a node \<Rightarrow> bool) \<Rightarrow> 'a node option" where
  "searchTree (Node f cs) p = (if p (Node f cs) then Some (Node f cs) else searchChildren cs p)"
| "searchChildren [] p = None"
| "searchChildren (c # cs) p =
     (case searchTree c p of Some n \<Rightarrow> Some n | None \<Rightarrow> searchChildren cs p)"

text \<open>
  Modelled from the spec: the merge of step 2 and step 3 of \<^verbatim>\<open>applyKit\<close>, "locate the stash
  node with matching \<^verbatim>\<open>loginId\<close> via the tree search operation; merge \<^verbatim>\<open>kit.stash\<close> fields into
  it".  \<open>updateTree\<close> rewrites the node \<open>searchTree\<close> finds, the first match in pre-order, and
  leaves every other node as it is; it gives \<open>None\<close> when no node matches.
\<close>

fun updateTree :: "'a node \<Rightarrow> ('a node \<Rightarrow> bool) \<Rightarrow> ('a node \<Rightarrow> 'a node) \<Rightarrow> 'a node option"
  and updateChildren ::
    "'a node list \<Rightarrow> ('a node \<Rightarrow> bool) \<Rightarrow> ('a node \<Rightarrow> 'a node) \<Rightarrow> 'a node list option" where
  "updateTree (Node f cs) p u =
     (if p (Node f cs) then Some (u (Node f cs))
      else map_option (Node f) (updateChildren cs p u))"
| "updateChildren [] p u = None"
| "updateChildren (c # cs) p u =
     (case updateTree c p u of
        Some c' \<Rightarrow> Some (c' # cs)
      | None \<Rightarrow> map_option ((#) c) (updateChildren cs p u))"

text \<open>
  Modelled from the spec: step 2 over the stash trees on disk, "one stash file per
  username", searched in order.  The rewritten tree is returned next to the new list, since
  it is the file that has to be written.
\<close>

fun updateStashes ::
  "LoginStash list \<Rightarrow> (LoginStash \<Rightarrow> bool) \<Rightarrow> (LoginStash \<Rightarrow> LoginStash) \<Rightarrow>
     (LoginStash \<times> LoginStash list) option" where
  "updateStashes [] p u = None"
| "updateStashes (s # ss) p u =
     (case updateTree s p u of
        Some s' \<Rightarrow> Some (s', s' # ss)
      | None \<Rightarrow> map_option (\<lambda>(w, ss'). (w, s # ss')) (updateStashes ss p u))"

text \<open>
  Modelled from the spec: the field-wise merge, "field-wise overwrite, \<^verbatim>\<open>undefined\<close>/absent
  means delete this field" and, in the design notes, "present-with-value = set,
  present-with-none = delete, absent = no-op".
\<close>

definition mergeField :: "'a patch \<Rightarrow> 'a option \<Rightarrow> 'a option" where
  "mergeField p old = (case p of Absent \<Rightarrow> old | Undefined \<Rightarrow> None | Value v \<Rightarrow> Some v)"

definition merge :: "Partial \<Rightarrow> 'a LoginBase_scheme \<Rightarrow> 'a LoginBase_scheme" where
  "merge p f =
     f\<lparr>LoginBase.otpKey := mergeField (Partial.otpKey p) (LoginBase.otpKey f),
       LoginBase.otpResetDate := mergeField (Partial.otpResetDate p) (LoginBase.otpResetDate f),
       LoginBase.otpTimeout := mergeField (Partial.otpTimeout p) (LoginBase.otpTimeout f)\<rparr>"

definition mergeNode :: "Partial \<Rightarrow> ('a LoginBase_scheme) node \<Rightarrow> ('a LoginBase_scheme) node" where
  "mergeNode p n = Node (merge p (props n)) (children n)"

definition hasLoginId :: "string \<Rightarrow> ('a LoginBase_scheme) node \<Rightarrow> bool" where
  "hasLoginId lid n = (LoginBase.loginId (props n) = lid)"

section \<open>The collaborators\<close>

text \<open>
  Modelled from the spec: \<^verbatim>\<open>loginFetch\<close> of \<^verbatim>\<open>core/login/login-fetch.js\<close>, which is not among
  the sources.  The spec gives the login service as "JSON request/response" with "a
  non-success response" aborting the caller, and network errors "surfaced as-is".  The call
  is appended to the log of what was sent, and the server decides the outcome.
\<close>

definition loginFetch ::
  "ApiInput \<Rightarrow> RootState \<Rightarrow> string \<Rightarrow> string \<Rightarrow> body \<Rightarrow> (error + json) \<times> RootState" where
  "loginFetch ai st m p b =
     (let call = \<lparr>httpMethod = m, path = p, body = b\<rparr>;
          st' = st\<lparr>sent := sent st @ [call]\<rparr>
      in case loginServer ai call of
           Success reply \<Rightarrow> (Inr reply, st')
         | NonSuccess code \<Rightarrow> (Inl (ServerError code), st')
         | Unreachable \<Rightarrow> (Inl NetworkError, st'))"

text \<open>
  Modelled from the spec: \<^verbatim>\<open>ai.props.io.random\<close>, the "random/entropy collaborator".  Each
  call hands out the next bytes of the entropy source, so no byte is handed out twice.
\<close>

definition random :: "ApiInput \<Rightarrow> RootState \<Rightarrow> nat \<Rightarrow> bytes \<times> RootState" where
  "random ai st n =
     (map (entropy ai) [drawn st ..< drawn st + n], st\<lparr>drawn := drawn st + n\<rparr>)"

section \<open>Applying a kit\<close>

text \<open>
  Modelled from the spec: \<^verbatim>\<open>applyKit\<close> of \<^verbatim>\<open>core/login/login.js\<close>, which is not among the
  sources.  The spec's contract, step by step:
  \<^enum> "If \<^verbatim>\<open>kit.server\<close> is present, send \<^verbatim>\<open>(serverMethod ?? default, serverPath, server)\<close> to
    the remote login service, addressed by the tree's \<^verbatim>\<open>loginId\<close>.  A non-success response
    aborts the whole operation -- no local state is mutated."
  \<^enum> "On server success (or if no server step was requested), locate the stash node with
    matching \<^verbatim>\<open>loginId\<close> via the tree search operation; merge \<^verbatim>\<open>kit.stash\<close> fields into it;
    persist the full stash to disk."
  \<^enum> "Merge \<^verbatim>\<open>kit.login\<close> fields into the matching in-memory tree node the same way."
  \<^enum> "Return the updated tree."

  Step 1 is worded for a kit with a payload.  The spec also has \<^verbatim>\<open>disableOtp\<close> delete the OTP
  properties "via a DELETE-style server request" (4.4) and the login service take "DELETE to
  disable" on \<^verbatim>\<open>/v2/login/otp\<close> (section 6), and the kit of \<^verbatim>\<open>disableOtp\<close> names that method
  and carries no payload.  So a kit that names its \<^verbatim>\<open>serverMethod\<close> takes the server step too,
  with a request that has no payload; "no server step was requested" is a kit with neither a
  payload nor a method.

  The spec does not say what happens when no node has the kit's \<^verbatim>\<open>loginId\<close>; the model
  rejects with \<open>MissingNode\<close> and mutates nothing, as the guarantee "if it rejects, neither
  was mutated" asks.  A failed disk write is "a fatal stash-write error".
\<close>

definition applyKit ::
  "ApiInput \<Rightarrow> RootState \<Rightarrow> LoginTree \<Rightarrow> LoginKit \<Rightarrow> (error + LoginTree) \<times> RootState" where
  "applyKit ai st tree kit =
     (case (case LoginKit.server kit of
              None \<Rightarrow>
                (case serverMethod kit of
                   None \<Rightarrow> (Inr [], st)
                 | Some m \<Rightarrow>
                     loginFetch ai st m (serverPath kit)
                       (KitBodyNoData (LoginBase.loginId (props tree))))
            | Some payload \<Rightarrow>
                loginFetch ai st
                  (case serverMethod kit of Some m \<Rightarrow> m | None \<Rightarrow> defaultMethod ai)
                  (serverPath kit)
                  (KitBody (LoginBase.loginId (props tree)) payload)) of
        (Inl e, st1) \<Rightarrow> (Inl e, st1)
      | (Inr reply, st1) \<Rightarrow>
          (case updateStashes (stashes st1) (hasLoginId (LoginKit.loginId kit))
                  (mergeNode (LoginKit.stash kit)) of
             None \<Rightarrow> (Inl MissingNode, st1)
           | Some (stashTree, stashes') \<Rightarrow>
               (case updateTree tree (hasLoginId (LoginKit.loginId kit))
                       (mergeNode (LoginKit.login kit)) of
                  None \<Rightarrow> (Inl MissingNode, st1)
                | Some tree' \<Rightarrow>
                    if diskWrite ai stashTree
                    then (Inr tree', st1\<lparr>stashes := stashes'\<rparr>)
                    else (Inl StashWriteError, st1))))"

text \<open>
  Modelled from the spec: the in-memory side of step 3.  The spec has \<^verbatim>\<open>applyKit\<close> merge "into
  the matching in-memory tree node", and the tree that the functions below hand to it is the
  tree object of the account \<^verbatim>\<open>accountId\<close>.  So \<^verbatim>\<open>await applyKit(ai, loginTree, kit)\<close> changes
  the tree of the account table; the value it resolves to is dropped.  The account's
  \<^verbatim>\<open>login\<close> node, which only \<^verbatim>\<open>repairOtp\<close> reads, is left as it is.
\<close>

definition awaitApplyKit ::
  "ApiInput \<Rightarrow> RootState \<Rightarrow> string \<Rightarrow> AccountState \<Rightarrow> LoginKit \<Rightarrow> (error + unit) \<times> RootState" where
  "awaitApplyKit ai st accountId acct kit =
     (case applyKit ai st (loginTree acct) kit of
        (Inl e, st') \<Rightarrow> (Inl e, st')
      | (Inr tree', st') \<Rightarrow>
          (Inr (), st'\<lparr>accounts := (accounts st')(accountId \<mapsto> acct\<lparr>loginTree := tree'\<rparr>)\<rparr>))"

section \<open>The OTP operations\<close>

text \<open>
  \<^verbatim>\<open>enableOtp\<close>.  The key of the kit is the tree's key passed through \<^verbatim>\<open>fixOtpKey\<close>, or
  the base32 text of ten bytes drawn from the entropy source.
\<close>

definition enableOtp_otpKey :: "ApiInput \<Rightarrow> RootState \<Rightarrow> LoginTree \<Rightarrow> string \<times> RootState" where
  "enableOtp_otpKey ai st tree =
     (case LoginBase.otpKey (props tree) of
        Some key \<Rightarrow> (fixOtpKey ai key, st)
      | None \<Rightarrow> (case random ai st 10 of (bs, st') \<Rightarrow> (base32_stringify ai bs, st')))"

definition enableOtp_kit :: "ApiInput \<Rightarrow> LoginTree \<Rightarrow> string \<Rightarrow> int \<Rightarrow> LoginKit" where
  "enableOtp_kit ai tree key timeout =
     \<lparr>serverMethod = None,
      serverPath = ''/v2/login/otp'',
      server = Some (wasChangeOtpPayload ai
        \<lparr>ChangeOtpPayload.otpKey = key, ChangeOtpPayload.otpTimeout = timeout\<rparr>),
      stash = \<lparr>Partial.otpKey = Value key, Partial.otpResetDate = Undefined,
               Partial.otpTimeout = Value timeout\<rparr>,
      login = \<lparr>Partial.otpKey = Value key, Partial.otpResetDate = Undefined,
               Partial.otpTimeout = Value timeout\<rparr>,
      loginId = LoginBase.loginId (props tree)\<rparr>"

definition enableOtp ::
  "ApiInput \<Rightarrow> RootState \<Rightarrow> string \<Rightarrow> int \<Rightarrow> (error + unit) \<times> RootState" where
  "enableOtp ai st accountId timeout =
     (case accounts st accountId of
        None \<Rightarrow> (Inl TypeError, st)
      | Some acct \<Rightarrow>
          (case enableOtp_otpKey ai st (loginTree acct) of
             (key, st') \<Rightarrow>
               awaitApplyKit ai st' accountId acct
                 (enableOtp_kit ai (loginTree acct) key timeout)))"

text \<open>
  \<^verbatim>\<open>disableOtp\<close>: a kit with no \<^verbatim>\<open>server\<close> payload, the method \<^verbatim>\<open>DELETE\<close>, and every OTP
  property written as \<^verbatim>\<open>undefined\<close>.
\<close>

definition disableOtp_kit :: "LoginTree \<Rightarrow> LoginKit" where
  "disableOtp_kit tree =
     \<lparr>serverMethod = Some ''DELETE'',
      serverPath = ''/v2/login/otp'',
      server = None,
      stash = \<lparr>Partial.otpKey = Undefined, Partial.otpResetDate = Undefined,
               Partial.otpTimeout = Undefined\<rparr>,
      login = \<lparr>Partial.otpKey = Undefined, Partial.otpResetDate = Undefined,
               Partial.otpTimeout = Undefined\<rparr>,
      loginId = LoginBase.loginId (props tree)\<rparr>"

definition disableOtp :: "ApiInput \<Rightarrow> RootState \<Rightarrow> string \<Rightarrow> (error + unit) \<times> RootState" where
  "disableOtp ai st accountId =
     (case accounts st accountId of
        None \<Rightarrow> (Inl TypeError, st)
      | Some acct \<Rightarrow> awaitApplyKit ai st accountId acct (disableOtp_kit (loginTree acct)))"

text \<open>
  \<^verbatim>\<open>cancelOtpReset\<close>: throws when \<^verbatim>\<open>otpTimeout == null || otpKey == null\<close>; the two nested
  cases below are this one test, and hand the two values to the kit.
\<close>

definition cancelOtpReset_kit :: "ApiInput \<Rightarrow> LoginTree \<Rightarrow> int \<Rightarrow> string \<Rightarrow> LoginKit" where
  "cancelOtpReset_kit ai tree timeout key =
     \<lparr>serverMethod = None,
      serverPath = ''/v2/login/otp'',
      server = Some (wasChangeOtpPayload ai
        \<lparr>ChangeOtpPayload.otpKey = key, ChangeOtpPayload.otpTimeout = timeout\<rparr>),
      stash = \<lparr>Partial.otpKey = Absent, Partial.otpResetDate = Undefined,
               Partial.otpTimeout = Absent\<rparr>,
      login = \<lparr>Partial.otpKey = Absent, Partial.otpResetDate = Undefined,
               Partial.otpTimeout = Absent\<rparr>,
      loginId = LoginBase.loginId (props tree)\<rparr>"

definition cancelOtpReset :: "ApiInput \<Rightarrow> RootState \<Rightarrow> string \<Rightarrow> (error + unit) \<times> RootState" where
  "cancelOtpReset ai st accountId =
     (case accounts st accountId of
        None \<Rightarrow> (Inl TypeError, st)
      | Some acct \<Rightarrow>
          (case LoginBase.otpTimeout (props (loginTree acct)) of
             None \<Rightarrow> (Inl (Error ''Cannot cancel 2FA reset: 2FA is not enabled.''), st)
           | Some timeout \<Rightarrow>
               (case LoginBase.otpKey (props (loginTree acct)) of
                  None \<Rightarrow> (Inl (Error ''Cannot cancel 2FA reset: 2FA is not enabled.''), st)
                | Some key \<Rightarrow>
                    awaitApplyKit ai st accountId acct
                      (cancelOtpReset_kit ai (loginTree acct) timeout key))))"

text \<open>\<^verbatim>\<open>resetOtp\<close>: requests an OTP reset for a user name, with the reset token.\<close>

definition resetOtp ::
  "ApiInput \<Rightarrow> RootState \<Rightarrow> string \<Rightarrow> string \<Rightarrow> (error + date) \<times> RootState" where
  "resetOtp ai st name resetToken =
     (let request = \<lparr>OtpResetRequest.userId = base64_stringify ai (hashUsername ai name),
                     otpResetAuth = resetToken\<rparr>
      in case loginFetch ai st ''DELETE'' ''/v2/login/otp'' (ResetBody request) of
           (Inl e, st') \<Rightarrow> (Inl e, st')
         | (Inr reply, st') \<Rightarrow>
             (case asOtpResetPayload ai reply of
                Inl e \<Rightarrow> (Inl e, st')
              | Inr payload \<Rightarrow> (Inr (OtpResetPayload.otpResetDate payload), st')))"

text \<open>
  \<^verbatim>\<open>repairOtp\<close> as \<^verbatim>\<open>src/core/login/otp.js\<close> has it.  The value \<^verbatim>\<open>serverLogin\<close> resolves to is
  dropped.
\<close>

definition repairOtp :: "ApiInput \<Rightarrow> RootState \<Rightarrow> string \<Rightarrow> string \<Rightarrow> (error + unit) \<times> RootState" where
  "repairOtp ai st accountId key =
     (case accounts st accountId of
        None \<Rightarrow> (Inr (), st)
      | Some acct \<Rightarrow>
          (case getStashById ai st (LoginBase.loginId (props (AccountState.login acct))) of
             Inl e \<Rightarrow> (Inl e, st)
           | Inr (stashTree, stashNode) \<Rightarrow>
               (case LoginTreeProps.passwordAuth (props (AccountState.login acct)) of
                  None \<Rightarrow>
                    (Inl (Error ''Cannot repair OTP: There is no password on this account''), st)
                | Some auth \<Rightarrow>
                    (let request =
                           \<lparr>LoginRequest.userId = LoginBase.userId (props (AccountState.login acct)),
                            LoginRequest.passwordAuth = base64_stringify ai auth,
                            LoginRequest.otp = totp ai key None\<rparr>;
                         opts = \<lparr>EdgeAccountOptions.otp = None, EdgeAccountOptions.otpKey = None,
                                 now = lastLogin (props stashTree)\<rparr>
                     in case serverLogin ai st stashTree stashNode opts request
                               (\<lambda>_. loginKey (props (AccountState.login acct))) of
                          (Inl e, st') \<Rightarrow> (Inl e, st')
                        | (Inr t, st') \<Rightarrow> (Inr (), st')))))"

text \<open>
  \<^verbatim>\<open>repairOtp\<close> as the later revision \<^verbatim>\<open>unnamed/part_001\<close> has it: the stash is found through
  the tree's user name and the login's \<^verbatim>\<open>appId\<close>, with a guard before each step.  The third
  guard repeats half of the first.
\<close>

definition repairOtp_part_001 ::
  "ApiInput \<Rightarrow> RootState \<Rightarrow> string \<Rightarrow> string \<Rightarrow> (error + unit) \<times> RootState" where
  "repairOtp_part_001 ai st accountId key =
     (case accounts st accountId of
        None \<Rightarrow> (Inr (), st)
      | Some acct \<Rightarrow>
          if LoginBase.username (props (loginTree acct)) = None
             \<or> LoginTreeProps.passwordAuth (props (AccountState.login acct)) = None
          then (Inl (Error ''Cannot sync: missing username''), st)
          else
            (case getStash ai st (the (LoginBase.username (props (loginTree acct)))) of
               Inl e \<Rightarrow> (Inl e, st)
             | Inr stashTree \<Rightarrow>
                 (case searchTree stashTree
                         (\<lambda>s. LoginBase.appId (props s) = LoginBase.appId (props (AccountState.login acct))) of
                    None \<Rightarrow> (Inl (Error ''Cannot sync: missing on-disk data''), st)
                  | Some stashNode \<Rightarrow>
                      (case LoginTreeProps.passwordAuth (props (AccountState.login acct)) of
                         None \<Rightarrow>
                           (Inl (Error ''Cannot repair OTP: There is no password on this account''), st)
                       | Some auth \<Rightarrow>
                           (let request =
                                  \<lparr>LoginRequest.userId = LoginBase.userId (props (AccountState.login acct)),
                                   LoginRequest.passwordAuth = base64_stringify ai auth,
                                   LoginRequest.otp = totp ai key None\<rparr>;
                                opts = \<lparr>EdgeAccountOptions.otp = None,
                                        EdgeAccountOptions.otpKey = None,
                                        now = lastLogin (props stashTree)\<rparr>
                            in case serverLogin ai st stashTree stashNode opts request
                                      (\<lambda>_. loginKey (props (AccountState.login acct))) of
                                 (Inl e, st') \<Rightarrow> (Inl e, st')
                               | (Inr t, st') \<Rightarrow> (Inr (), st'))))))"

section \<open>Auxiliary notions for the statements\<close>

text \<open>A predicate that looks at the properties of a node only, not at its children.\<close>

definition props_only :: "('a node \<Rightarrow> bool) \<Rightarrow> bool" where
  "props_only p = (\<forall>f cs cs'. p (Node f cs) = p (Node f cs'))"

text \<open>
  The call \<open>applyKit\<close> sends for a kit that carries a payload, and the server step of any
  kit: that call, or the call without payload of a kit that only names its method, or none.
\<close>

definition kitCall :: "ApiInput \<Rightarrow> LoginTree \<Rightarrow> LoginKit \<Rightarrow> json \<Rightarrow> FetchCall" where
  "kitCall ai tree kit payload =
     \<lparr>httpMethod = (case serverMethod kit of Some m \<Rightarrow> m | None \<Rightarrow> defaultMethod ai),
      path = serverPath kit,
      body = KitBody (LoginBase.loginId (props tree)) payload\<rparr>"

definition serverStep :: "ApiInput \<Rightarrow> LoginTree \<Rightarrow> LoginKit \<Rightarrow> FetchCall option" where
  "serverStep ai tree kit =
     (case LoginKit.server kit of
        Some payload \<Rightarrow> Some (kitCall ai tree kit payload)
      | None \<Rightarrow>
          (case serverMethod kit of
             Some m \<Rightarrow>
               Some \<lparr>httpMethod = m, path = serverPath kit,
                     body = KitBodyNoData (LoginBase.loginId (props tree))\<rparr>
           | None \<Rightarrow> None))"

text \<open>
  The resolution order of \<^verbatim>\<open>getStashOtp\<close> in the words of the specification, to be compared
  with the function of the source: a numeric code is a non-empty string of decimal digits.
\<close>

definition numeric_code :: "string \<Rightarrow> bool" where
  "numeric_code s = (s \<noteq> [] \<and> list_all digit s)"

definition getStashOtp_spec :: "ApiInput \<Rightarrow> LoginStash \<Rightarrow> EdgeAccountOptions \<Rightarrow> string option" where
  "getStashOtp_spec ai stashNode opts =
     (case EdgeAccountOptions.otp opts of
        Some c \<Rightarrow>
          if numeric_code c \<and> length c < 16 then Some c else Some (totp ai c None)
      | None \<Rightarrow>
          (case EdgeAccountOptions.otpKey opts of
             Some k \<Rightarrow> Some (totp ai k None)
           | None \<Rightarrow>
               (case LoginBase.otpKey (props stashNode) of
                  Some k \<Rightarrow> Some (totp ai k None)
                | None \<Rightarrow> None)))"

text \<open>Deleting the pending reset, and nothing else, from the properties of a node.\<close>

definition clearReset :: "'a LoginBase_scheme \<Rightarrow> 'a LoginBase_scheme" where
  "clearReset f = f\<lparr>LoginBase.otpResetDate := None\<rparr>"

text \<open>
  Two trees that differ in one node at most: \<open>oneNode R t t'\<close> says that \<open>t'\<close> is \<open>t\<close> with the
  node at one position replaced, the old and the new node being related by \<open>R\<close>, and every
  other node and the order of all children kept; \<open>oneChild\<close> is the same for a list of trees.
\<close>

fun oneNode :: "('a node \<Rightarrow> 'a node \<Rightarrow> bool) \<Rightarrow> 'a node \<Rightarrow> 'a node \<Rightarrow> bool"
  and oneChild :: "('a node \<Rightarrow> 'a node \<Rightarrow> bool) \<Rightarrow> 'a node list \<Rightarrow> 'a node list \<Rightarrow> bool" where
  "oneNode R (Node f cs) (Node f' cs') =
     (R (Node f cs) (Node f' cs') \<or> (f' = f \<and> oneChild R cs cs'))"
| "oneChild R [] ds = False"
| "oneChild R (c # cs) [] = False"
| "oneChild R (c # cs) (d # ds) =
     ((ds = cs \<and> oneNode R c d) \<or> (d = c \<and> oneChild R cs ds))"

text \<open>
  \<^verbatim>\<open>await serverLogin(...)\<close> in \<^verbatim>\<open>repairOtp\<close>: the tree it resolves to is dropped.
\<close>

definition dropTree :: "(error + LoginTree) \<times> RootState \<Rightarrow> (error + unit) \<times> RootState" where
  "dropTree r = (case r of (Inl e, st) \<Rightarrow> (Inl e, st) | (Inr t, st) \<Rightarrow> (Inr (), st))"

subsection \<open>A concrete account, stash and set of collaborators\<close>

text \<open>
  One logged-in account \<open>acct\<close> whose tree is a single node \<open>id0\<close>, two stash trees on disk
  (another user's, then this user's), and collaborators simple enough to compute with: a
  login server that gives the same response to every call, and a \<open>serverLogin\<close> that logs
  the request it is handed.
\<close>

definition exampleTree ::
  "string option \<Rightarrow> string option \<Rightarrow> int option \<Rightarrow> date option \<Rightarrow> bytes option \<Rightarrow> LoginTree" where
  "exampleTree name key timeout reset auth =
     Node \<lparr>LoginBase.loginId = ''id0'', appId = ''app'', username = name, LoginBase.userId = ''uid0'',
           LoginBase.otpKey = key, LoginBase.otpResetDate = reset, LoginBase.otpTimeout = timeout,
           loginKey = [1, 2, 3], LoginTreeProps.passwordAuth = auth, recovery2Key = None\<rparr> []"

definition exampleStash :: "string \<Rightarrow> string option \<Rightarrow> int option \<Rightarrow> date option \<Rightarrow> LoginStash" where
  "exampleStash lid key timeout reset =
     Node \<lparr>LoginBase.loginId = lid, appId = ''app'', username = Some ''js test 0'',
           LoginBase.userId = ''uid0'', LoginBase.otpKey = key, LoginBase.otpResetDate = reset,
           LoginBase.otpTimeout = timeout, lastLogin = Some 1000\<rparr> []"

definition exampleState :: "LoginTree \<Rightarrow> LoginStash \<Rightarrow> RootState" where
  "exampleState tree stashTree =
     \<lparr>accounts = [''acct'' \<mapsto> \<lparr>AccountState.login = tree, loginTree = tree\<rparr>],
      stashes = [exampleStash ''id9'' None None None, stashTree],
      sent = [], drawn = 0\<rparr>"

definition exampleAi :: "response \<Rightarrow> ApiInput" where
  "exampleAi resp =
     \<lparr>otpCode = (\<lambda>key t. key @ (if t < 30 then ''-0'' else ''-1'')),
      clock = 59,
      fixOtpKey = filter (\<lambda>c. c \<noteq> CHR ''-''),
      entropy = (\<lambda>i. of_nat i),
      base32_stringify = map (\<lambda>b. if b = 0 then CHR ''A'' else CHR ''B''),
      base64_stringify = map (\<lambda>b. if b = 0 then CHR ''a'' else CHR ''b''),
      hashUsername = map (\<lambda>c. if c = CHR ''j'' then 0 else 1),
      wasChangeOtpPayload = (\<lambda>p. ChangeOtpPayload.otpKey p),
      asOtpResetPayload = (\<lambda>reply. if reply = [] then Inl (Error ''empty reply'')
                                     else Inr \<lparr>OtpResetPayload.otpResetDate = length reply\<rparr>),
      loginServer = (\<lambda>call. resp),
      defaultMethod = ''POST'',
      diskWrite = (\<lambda>s. True),
      getStashById = (\<lambda>st lid. case stashes st of
                         [] \<Rightarrow> Inl (Error ''no stash'')
                       | s # ss \<Rightarrow> (case searchTree (last (s # ss)) (hasLoginId lid) of
                                      None \<Rightarrow> Inl (Error ''no stash'')
                                    | Some n \<Rightarrow> Inr (last (s # ss), n))),
      getStash = (\<lambda>st name. case stashes st of
                         [] \<Rightarrow> Inl (Error ''no stash'')
                       | s # ss \<Rightarrow> Inr (last (s # ss))),
      serverLogin = (\<lambda>st stashTree stashNode opts request unlock.
                       (Inr (Node \<lparr>LoginBase.loginId = LoginBase.loginId (props stashNode),
                                   appId = ''app'', username = None,
                                   LoginBase.userId = LoginRequest.userId request,
                                   LoginBase.otpKey = None, LoginBase.otpResetDate = None,
                                   LoginBase.otpTimeout = None, loginKey = unlock (),
                                   LoginTreeProps.passwordAuth = None, recovery2Key = None\<rparr> []),
                        st\<lparr>sent := sent st @ [\<lparr>httpMethod = ''POST'', path = ''/v2/login'',
                                                body = LoginBody request\<rparr>]\<rparr>))\<rparr>"

text \<open>Closed instances of the above, used to run the operations on.\<close>

abbreviation ai_ok :: ApiInput where
  "ai_ok \<equiv> exampleAi (Success ''{}'')"

abbreviation ai_fail :: ApiInput where
  "ai_fail \<equiv> exampleAi (NonSuccess 3)"

abbreviation plainTree :: LoginTree where
  "plainTree \<equiv> exampleTree (Some ''js test 0'') None None None (Some [4, 5])"

abbreviation plainState :: RootState where
  "plainState \<equiv> exampleState plainTree (exampleStash ''id0'' None None None)"

abbreviation otpTree :: LoginTree where
  "otpTree \<equiv> exampleTree (Some ''js test 0'') (Some ''KEY'') (Some 30) (Some 7) (Some [4, 5])"

abbreviation otpState :: RootState where
  "otpState \<equiv> exampleState otpTree (exampleStash ''id0'' (Some ''KEY'') (Some 30) (Some 7))"

abbreviation keyOnlyTree :: LoginTree where
  "keyOnlyTree \<equiv> exampleTree (Some ''js test 0'') (Some ''KEY'') None None (Some [4, 5])"

abbreviation keyOnlyState :: RootState where
  "keyOnlyState \<equiv> exampleState keyOnlyTree (exampleStash ''id0'' (Some ''KEY'') None None)"

abbreviation noNameTree :: LoginTree where
  "noNameTree \<equiv> exampleTree None None None None (Some [4, 5])"

abbreviation noNameState :: RootState where
  "noNameState \<equiv> exampleState noNameTree (exampleStash ''id0'' None None None)"

abbreviation noPasswordTree :: LoginTree where
  "noPasswordTree \<equiv> exampleTree (Some ''js test 0'') None None None None"

abbreviation noPasswordState :: RootState where
  "noPasswordState \<equiv> exampleState noPasswordTree (exampleStash ''id0'' None None None)"

section \<open>Lemmas on trees and kits\<close>

lemma searchTree_self: "p n \<Longrightarrow> searchTree n p = Some n"
  by (cases n) simp

lemma update_None_iff:
  "(updateTree t p u = None) = (searchTree t p = None)"
  "(updateChildren ts p u = None) = (searchChildren ts p = None)"
  by (induction t p u and ts p u rule: updateTree_updateChildren.induct)
     (auto split: option.splits)

lemma update_search:
  "props_only p \<Longrightarrow> (\<forall>n. p n \<longrightarrow> p (u n)) \<Longrightarrow> updateTree t p u = Some t' \<Longrightarrow>
           \<exists>n. searchTree t p = Some n \<and> searchTree t' p = Some (u n)"
  "props_only p \<Longrightarrow> (\<forall>n. p n \<longrightarrow> p (u n)) \<Longrightarrow> updateChildren ts p u = Some ts' \<Longrightarrow>
           \<exists>n. searchChildren ts p = Some n \<and> searchChildren ts' p = Some (u n)"
proof (induction t p u and ts p u arbitrary: t' and ts' rule: updateTree_updateChildren.induct)
  case (1 f cs p u)
  show ?case
  proof (cases "p (Node f cs)")
    case True
    with 1 show ?thesis by (auto simp: searchTree_self)
  next
    case False
    with 1 obtain cs' where cs': "updateChildren cs p u = Some cs'" "t' = Node f cs'"
      by auto
    from False 1(2) have "\<not> p (Node f cs')" by (auto simp: props_only_def)
    with False 1 cs' show ?thesis by auto
  qed
next
  case (2 p u)
  then show ?case by simp
next
  case (3 c cs p u)
  show ?case
  proof (cases "updateTree c p u")
    case None
    then have "searchTree c p = None" by (simp add: update_None_iff)
    with None 3 show ?thesis by auto
  next
    case (Some c')
    with 3 show ?thesis by auto
  qed
qed

lemma updateStashes_children:
  "updateChildren ss p u = map_option snd (updateStashes ss p u)"
proof (induction ss)
  case Nil
  show ?case by simp
next
  case (Cons s ss)
  show ?case
  proof (cases "updateStashes ss p u")
    case None
    with Cons show ?thesis by (auto split: option.splits)
  next
    case (Some r)
    with Cons show ?thesis by (cases r) (auto split: option.splits)
  qed
qed

lemma updateStashes_search:
  "props_only p \<Longrightarrow> (\<forall>n. p n \<longrightarrow> p (u n)) \<Longrightarrow> updateStashes ss p u = Some (w, ss') \<Longrightarrow>
     \<exists>n. searchChildren ss p = Some n \<and> searchChildren ss' p = Some (u n)"
  using update_search(2) [of p u ss ss'] updateStashes_children [of ss p u] by auto

lemma hasLoginId_props_only: "props_only (hasLoginId lid)"
  by (simp add: props_only_def hasLoginId_def)

lemma hasLoginId_mergeNode: "hasLoginId lid (mergeNode q n) = hasLoginId lid n"
  by (simp add: hasLoginId_def mergeNode_def merge_def)

lemma updateTree_root_eq:
  "updateTree t (hasLoginId (LoginBase.loginId (props t))) u = Some (u t)"
  by (cases t) (simp add: hasLoginId_def)

lemma applyKit_Inl:
  "applyKit ai st tree kit = (Inl e, st') \<Longrightarrow>
     stashes st' = stashes st \<and> accounts st' = accounts st \<and> drawn st' = drawn st"
  by (auto simp: applyKit_def loginFetch_def Let_def
           split: option.splits sum.splits prod.splits response.splits if_splits)

lemma applyKit_Inr:
  "applyKit ai st tree kit = (Inr tree', st') \<Longrightarrow>
     accounts st' = accounts st \<and> drawn st' = drawn st \<and>
     (\<exists>w. updateStashes (stashes st) (hasLoginId (LoginKit.loginId kit))
            (mergeNode (LoginKit.stash kit)) = Some (w, stashes st')) \<and>
     updateTree tree (hasLoginId (LoginKit.loginId kit)) (mergeNode (LoginKit.login kit)) = Some tree' \<and>
     (case serverStep ai tree kit of
        None \<Rightarrow> sent st' = sent st
      | Some call \<Rightarrow> sent st' = sent st @ [call] \<and>
          (\<exists>reply. loginServer ai call = Success reply))"
  by (auto simp: applyKit_def loginFetch_def Let_def kitCall_def serverStep_def
           split: option.splits sum.splits prod.splits response.splits if_splits)

lemma awaitApplyKit_Inl:
  "awaitApplyKit ai st accountId acct kit = (Inl e, st') \<Longrightarrow>
     stashes st' = stashes st \<and> accounts st' = accounts st \<and> drawn st' = drawn st"
  by (auto simp: awaitApplyKit_def split: prod.splits sum.splits dest: applyKit_Inl)

lemma awaitApplyKit_Inr:
  assumes "awaitApplyKit ai st accountId acct kit = (Inr x, st')"
      and "LoginKit.loginId kit = LoginBase.loginId (props (loginTree acct))"
  shows "accounts st' = (accounts st)(accountId \<mapsto>
            acct\<lparr>loginTree := mergeNode (LoginKit.login kit) (loginTree acct)\<rparr>)"
    and "\<exists>n. searchChildren (stashes st) (hasLoginId (LoginKit.loginId kit)) = Some n \<and>
             searchChildren (stashes st') (hasLoginId (LoginKit.loginId kit)) =
               Some (mergeNode (LoginKit.stash kit) n)"
    and "case serverStep ai (loginTree acct) kit of
           None \<Rightarrow> sent st' = sent st
         | Some call \<Rightarrow> sent st' = sent st @ [call] \<and>
             (\<exists>reply. loginServer ai call = Success reply)"
    and "drawn st' = drawn st"
proof -
  from assms(1) obtain tree' st1 where
    ak: "applyKit ai st (loginTree acct) kit = (Inr tree', st1)" and
    st': "st' = st1\<lparr>accounts := (accounts st1)(accountId \<mapsto> acct\<lparr>loginTree := tree'\<rparr>)\<rparr>"
    by (auto simp: awaitApplyKit_def split: prod.splits sum.splits)
  note r = applyKit_Inr [OF ak]
  from r assms(2) have t': "tree' = mergeNode (LoginKit.login kit) (loginTree acct)"
    by (simp add: updateTree_root_eq)
  from r st' t' show "accounts st' = (accounts st)(accountId \<mapsto>
            acct\<lparr>loginTree := mergeNode (LoginKit.login kit) (loginTree acct)\<rparr>)"
    by simp
  from r obtain w where
    "updateStashes (stashes st) (hasLoginId (LoginKit.loginId kit))
       (mergeNode (LoginKit.stash kit)) = Some (w, stashes st1)" by blast
  from updateStashes_search [OF hasLoginId_props_only _ this] st'
  show "\<exists>n. searchChildren (stashes st) (hasLoginId (LoginKit.loginId kit)) = Some n \<and>
             searchChildren (stashes st') (hasLoginId (LoginKit.loginId kit)) =
               Some (mergeNode (LoginKit.stash kit) n)"
    by (simp add: hasLoginId_mergeNode)
  from r st' show "case serverStep ai (loginTree acct) kit of
           None \<Rightarrow> sent st' = sent st
         | Some call \<Rightarrow> sent st' = sent st @ [call] \<and>
             (\<exists>reply. loginServer ai call = Success reply)"
    by (auto split: option.splits)
  from r st' show "drawn st' = drawn st" by simp
qed

lemma applyKit_sent:
  "serverStep ai tree kit = Some call \<Longrightarrow> applyKit ai st tree kit = (r, st') \<Longrightarrow>
     sent st' = sent st @ [call]"
  by (auto simp: applyKit_def loginFetch_def Let_def kitCall_def serverStep_def
           split: option.splits sum.splits prod.splits response.splits if_splits)

lemma applyKit_rejected:
  "serverStep ai tree kit = Some call \<Longrightarrow> \<forall>reply. loginServer ai call \<noteq> Success reply \<Longrightarrow>
     \<exists>e. applyKit ai st tree kit = (Inl e, st\<lparr>sent := sent st @ [call]\<rparr>)"
  by (cases "loginServer ai call")
     (auto simp: applyKit_def loginFetch_def Let_def kitCall_def serverStep_def
           split: option.splits)

lemma awaitApplyKit_sent:
  assumes "serverStep ai (loginTree acct) kit = Some call"
      and "awaitApplyKit ai st accountId acct kit = (r, st')"
  shows "sent st' = sent st @ [call]"
proof -
  obtain r1 st1 where a1: "applyKit ai st (loginTree acct) kit = (r1, st1)"
    by (cases "applyKit ai st (loginTree acct) kit")
  with assms(2) have "sent st' = sent st1"
    by (auto simp: awaitApplyKit_def split: sum.splits)
  with applyKit_sent [OF assms(1) a1] show ?thesis by simp
qed

lemmas example_defs = exampleAi_def exampleState_def exampleTree_def exampleStash_def
lemmas op_defs = enableOtp_def disableOtp_def cancelOtpReset_def
     enableOtp_otpKey_def random_def awaitApplyKit_def applyKit_def enableOtp_kit_def
     disableOtp_kit_def cancelOtpReset_kit_def loginFetch_def
     hasLoginId_def mergeNode_def merge_def mergeField_def

lemma applyKit_not_Error: "applyKit ai st tree kit \<noteq> (Inl (Error m), st')"
  by (auto simp: applyKit_def loginFetch_def Let_def
           split: option.splits sum.splits prod.splits response.splits if_splits)

lemma awaitApplyKit_not_Error: "fst (awaitApplyKit ai st accountId acct kit) \<noteq> Inl (Error m)"
  using applyKit_not_Error [of ai st "loginTree acct" kit m]
  by (auto simp: awaitApplyKit_def split: prod.splits sum.splits)

lemma disableOtp_Inr:
  assumes "disableOtp ai st accountId = (Inr x, st')"
  shows "\<exists>acct. accounts st accountId = Some acct \<and>
           accounts st' = (accounts st)(accountId \<mapsto>
             acct\<lparr>loginTree := mergeNode (LoginKit.login (disableOtp_kit (loginTree acct))) (loginTree acct)\<rparr>) \<and>
           (\<exists>n. searchChildren (stashes st) (hasLoginId (LoginBase.loginId (props (loginTree acct)))) = Some n \<and>
             searchChildren (stashes st') (hasLoginId (LoginBase.loginId (props (loginTree acct)))) =
               Some (mergeNode (LoginKit.stash (disableOtp_kit (loginTree acct))) n))"
proof -
  from assms obtain acct where acct: "accounts st accountId = Some acct"
    and ak: "awaitApplyKit ai st accountId acct (disableOtp_kit (loginTree acct)) = (Inr x, st')"
    by (auto simp: disableOtp_def split: option.splits)
  have lid: "LoginKit.loginId (disableOtp_kit (loginTree acct)) = LoginBase.loginId (props (loginTree acct))"
    by (simp add: disableOtp_kit_def)
  from awaitApplyKit_Inr(1,2) [OF ak lid] acct lid show ?thesis by simp
qed

lemma mergeNode_disable:
  "LoginBase.otpKey (props (mergeNode (LoginKit.stash (disableOtp_kit t)) n)) = None"
  "LoginBase.otpTimeout (props (mergeNode (LoginKit.stash (disableOtp_kit t)) n)) = None"
  "LoginBase.otpResetDate (props (mergeNode (LoginKit.stash (disableOtp_kit t)) n)) = None"
  "LoginBase.otpKey (props (mergeNode (LoginKit.login (disableOtp_kit t)) n)) = None"
  "LoginBase.otpTimeout (props (mergeNode (LoginKit.login (disableOtp_kit t)) n)) = None"
  "LoginBase.otpResetDate (props (mergeNode (LoginKit.login (disableOtp_kit t)) n)) = None"
  "LoginBase.loginId (props (mergeNode q n)) = LoginBase.loginId (props n)"
  by (simp_all add: mergeNode_def merge_def mergeField_def disableOtp_kit_def)

lemma enableOtp_Inr:
  assumes "enableOtp ai st accountId timeout = (Inr x, st')"
  shows "\<exists>acct key stR. accounts st accountId = Some acct \<and>
           enableOtp_otpKey ai st (loginTree acct) = (key, stR) \<and>
           accounts stR = accounts st \<and> stashes stR = stashes st \<and> sent stR = sent st \<and>
           awaitApplyKit ai stR accountId acct (enableOtp_kit ai (loginTree acct) key timeout) = (Inr x, st')"
  using assms
  by (auto simp: enableOtp_def enableOtp_otpKey_def random_def split: option.splits prod.splits)

lemma enableOtp_effect:
  assumes "enableOtp ai st accountId timeout = (Inr x, st')"
  shows "\<exists>acct key stR n. accounts st accountId = Some acct \<and>
           enableOtp_otpKey ai st (loginTree acct) = (key, stR) \<and>
           accounts st' = (accounts st)(accountId \<mapsto>
             acct\<lparr>loginTree := mergeNode (LoginKit.login (enableOtp_kit ai (loginTree acct) key timeout))
                                 (loginTree acct)\<rparr>) \<and>
           searchChildren (stashes st) (hasLoginId (LoginBase.loginId (props (loginTree acct)))) = Some n \<and>
           searchChildren (stashes st') (hasLoginId (LoginBase.loginId (props (loginTree acct)))) =
             Some (mergeNode (LoginKit.stash (enableOtp_kit ai (loginTree acct) key timeout)) n)"
proof -
  from enableOtp_Inr [OF assms] obtain acct key stR where
    acct: "accounts st accountId = Some acct"
    and key: "enableOtp_otpKey ai st (loginTree acct) = (key, stR)"
    and same: "accounts stR = accounts st" "stashes stR = stashes st"
    and ak: "awaitApplyKit ai stR accountId acct (enableOtp_kit ai (loginTree acct) key timeout) = (Inr x, st')"
    by blast
  have lid: "LoginKit.loginId (enableOtp_kit ai (loginTree acct) key timeout) =
      LoginBase.loginId (props (loginTree acct))"
    by (simp add: enableOtp_kit_def)
  from awaitApplyKit_Inr(1,2) [OF ak lid] acct key same lid show ?thesis by simp
qed

lemma mergeNode_enable:
  "LoginBase.otpKey (props (mergeNode (LoginKit.stash (enableOtp_kit ai t key timeout)) n)) = Some key"
  "LoginBase.otpTimeout (props (mergeNode (LoginKit.stash (enableOtp_kit ai t key timeout)) n)) = Some timeout"
  "LoginBase.otpResetDate (props (mergeNode (LoginKit.stash (enableOtp_kit ai t key timeout)) n)) = None"
  "LoginBase.otpKey (props (mergeNode (LoginKit.login (enableOtp_kit ai t key timeout)) n)) = Some key"
  "LoginBase.otpTimeout (props (mergeNode (LoginKit.login (enableOtp_kit ai t key timeout)) n)) = Some timeout"
  "LoginBase.otpResetDate (props (mergeNode (LoginKit.login (enableOtp_kit ai t key timeout)) n)) = None"
  by (simp_all add: mergeNode_def merge_def mergeField_def enableOtp_kit_def)

lemma update_frame:
  "(\<forall>n. map_node e (u n) = map_node e n) \<Longrightarrow> updateTree t p u = Some t' \<Longrightarrow>
     map_node e t' = map_node e t"
  "(\<forall>n. map_node e (u n) = map_node e n) \<Longrightarrow> updateChildren ts p u = Some ts' \<Longrightarrow>
     map (map_node e) ts' = map (map_node e) ts"
  by (induction t p u and ts p u arbitrary: t' and ts' rule: updateTree_updateChildren.induct)
     (auto split: if_splits option.splits)

lemma updateStashes_frame:
  assumes "\<forall>n. map_node e (u n) = map_node e n" and "updateStashes ss p u = Some (w, ss')"
  shows "map (map_node e) ss' = map (map_node e) ss"
proof -
  from assms(2) have "updateChildren ss p u = Some ss'"
    by (simp add: updateStashes_children)
  with assms(1) show ?thesis by (rule update_frame(2))
qed

lemma mergeNode_cancel:
  "mergeNode \<lparr>Partial.otpKey = Absent, Partial.otpResetDate = Undefined, Partial.otpTimeout = Absent\<rparr> n
     = Node (clearReset (props n)) (children n)"
  by (simp add: mergeNode_def merge_def mergeField_def clearReset_def)

lemma cancel_patch_frame:
  "\<forall>n. map_node clearReset
         (mergeNode (LoginKit.stash (cancelOtpReset_kit ai tree timeout key)) n)
       = map_node clearReset n"
proof
  fix n :: "('a LoginBase_scheme) node"
  show "map_node clearReset
         (mergeNode (LoginKit.stash (cancelOtpReset_kit ai tree timeout key)) n)
       = map_node clearReset n"
    by (cases n) (simp add: cancelOtpReset_kit_def mergeNode_def merge_def mergeField_def clearReset_def)
qed

lemma applyKit_cancel_frame:
  assumes "applyKit ai st tree (cancelOtpReset_kit ai tree timeout key) = (r, st')"
  shows "map (map_node clearReset) (stashes st') = map (map_node clearReset) (stashes st)"
proof (cases r)
  case (Inl e)
  with assms show ?thesis by (simp add: applyKit_Inl)
next
  case (Inr tree')
  with assms applyKit_Inr [of ai st tree "cancelOtpReset_kit ai tree timeout key" tree' st']
  obtain w where "updateStashes (stashes st) (hasLoginId (LoginKit.loginId (cancelOtpReset_kit ai tree timeout key)))
       (mergeNode (LoginKit.stash (cancelOtpReset_kit ai tree timeout key))) = Some (w, stashes st')"
    by blast
  with cancel_patch_frame show ?thesis
    by (rule updateStashes_frame)
qed

lemma applyKit_state:
  "applyKit ai st tree kit = (r, st') \<Longrightarrow> st' = st\<lparr>stashes := stashes st', sent := sent st'\<rparr>"
  by (auto simp: applyKit_def loginFetch_def Let_def
           split: option.splits sum.splits prod.splits response.splits if_splits)

lemma awaitApplyKit_state:
  "awaitApplyKit ai st accountId acct kit = (r, st') \<Longrightarrow>
     st' = st\<lparr>accounts := accounts st', stashes := stashes st', sent := sent st'\<rparr>"
proof -
  assume a: "awaitApplyKit ai st accountId acct kit = (r, st')"
  obtain r1 st1 where a1: "applyKit ai st (loginTree acct) kit = (r1, st1)"
    by (cases "applyKit ai st (loginTree acct) kit")
  from applyKit_state [OF a1] have "st1 = st\<lparr>stashes := stashes st1, sent := sent st1\<rparr>" .
  moreover from a a1 have "st' = st1 \<or> (\<exists>acc. st' = st1\<lparr>accounts := acc\<rparr>)"
    by (auto simp: awaitApplyKit_def split: sum.splits)
  ultimately show ?thesis
    by (cases st, cases st1) auto
qed

lemma applyKit_failed:
  "serverStep ai tree kit = Some call \<Longrightarrow> loginServer ai call = NonSuccess code \<Longrightarrow>
     applyKit ai st tree kit = (Inl (ServerError code), st\<lparr>sent := sent st @ [call]\<rparr>)"
  "serverStep ai tree kit = Some call \<Longrightarrow> loginServer ai call = Unreachable \<Longrightarrow>
     applyKit ai st tree kit = (Inl NetworkError, st\<lparr>sent := sent st @ [call]\<rparr>)"
  by (auto simp: applyKit_def loginFetch_def Let_def kitCall_def serverStep_def
           split: option.splits)

lemma applyKit_resolved:
  "serverStep ai tree kit = Some call \<Longrightarrow> applyKit ai st tree kit = (Inr t, st') \<Longrightarrow>
     \<exists>reply. loginServer ai call = Success reply"
  using applyKit_Inr [of ai st tree kit t st'] by auto

lemma update_oneNode:
  "updateTree t p u = Some t' \<Longrightarrow> oneNode (\<lambda>n n'. p n \<and> n' = u n) t t'"
  "updateChildren ts p u = Some ts' \<Longrightarrow> oneChild (\<lambda>n n'. p n \<and> n' = u n) ts ts'"
proof (induction t p u and ts p u arbitrary: t' and ts' rule: updateTree_updateChildren.induct)
  case (1 f cs p u)
  show ?case
  proof (cases "p (Node f cs)")
    case True
    with 1(2) have "t' = u (Node f cs)" by simp
    with True show ?thesis by (cases "u (Node f cs)") simp
  next
    case False
    with 1(2) obtain cs' where "updateChildren cs p u = Some cs'" "t' = Node f cs'"
      by auto
    with 1(1) [OF False] show ?thesis by simp
  qed
next
  case (2 p u)
  then show ?case by simp
next
  case (3 c cs p u)
  show ?case
  proof (cases "updateTree c p u")
    case None
    with 3(3) obtain cs' where "updateChildren cs p u = Some cs'" "ts' = c # cs'"
      by auto
    with 3(2) [OF None] show ?thesis by simp
  next
    case (Some c')
    with 3(3) have "ts' = c' # cs" by simp
    with 3(1) [OF Some] show ?thesis by simp
  qed
qed

lemma mergeNode_cancel_fun:
  "mergeNode (LoginKit.stash (cancelOtpReset_kit ai tree timeout key)) =
     (\<lambda>n. Node (clearReset (props n)) (children n))"
  by (rule ext) (simp add: cancelOtpReset_kit_def mergeNode_cancel)

lemma cancelOtpReset_effect:
  assumes acct: "accounts st accountId = Some acct"
      and run: "cancelOtpReset ai st accountId = (r, st')"
  shows "(\<exists>acct'. accounts st' accountId = Some acct'
            \<and> LoginBase.otpKey (props (loginTree acct')) = LoginBase.otpKey (props (loginTree acct))
            \<and> LoginBase.otpTimeout (props (loginTree acct')) = LoginBase.otpTimeout (props (loginTree acct)))
       \<and> map (map_node clearReset) (stashes st') = map (map_node clearReset) (stashes st)
       \<and> (\<forall>timeout key.
              LoginBase.otpTimeout (props (loginTree acct)) = Some timeout
            \<and> LoginBase.otpKey (props (loginTree acct)) = Some key \<longrightarrow>
              sent st' = sent st @
                  [\<lparr>httpMethod = defaultMethod ai, path = ''/v2/login/otp'',
                    body = KitBody (LoginBase.loginId (props (loginTree acct)))
                      (wasChangeOtpPayload ai
                        \<lparr>ChangeOtpPayload.otpKey = key, ChangeOtpPayload.otpTimeout = timeout\<rparr>)\<rparr>])
       \<and> (r = Inr () \<longrightarrow>
            (\<exists>acct' n.
                accounts st' accountId = Some acct'
              \<and> loginTree acct' =
                  Node (clearReset (props (loginTree acct))) (children (loginTree acct))
              \<and> searchChildren (stashes st)
                    (hasLoginId (LoginBase.loginId (props (loginTree acct)))) = Some n
              \<and> searchChildren (stashes st')
                    (hasLoginId (LoginBase.loginId (props (loginTree acct)))) =
                  Some (Node (clearReset (props n)) (children n))))
       \<and> st' = st\<lparr>accounts := accounts st', stashes := stashes st', sent := sent st'\<rparr>
       \<and> (r = Inr () \<longrightarrow>
              accounts st' = (accounts st)(accountId \<mapsto>
                acct\<lparr>loginTree :=
                  Node (clearReset (props (loginTree acct))) (children (loginTree acct))\<rparr>)
            \<and> updateChildren (stashes st)
                  (hasLoginId (LoginBase.loginId (props (loginTree acct))))
                  (\<lambda>n. Node (clearReset (props n)) (children n)) = Some (stashes st'))
       \<and> (r \<noteq> Inr () \<longrightarrow> accounts st' = accounts st \<and> stashes st' = stashes st)"
proof (cases "LoginBase.otpTimeout (props (loginTree acct)) = None
              \<or> LoginBase.otpKey (props (loginTree acct)) = None")
  case True
  with acct run have "st' = st" "r = Inl (Error ''Cannot cancel 2FA reset: 2FA is not enabled.'')"
    by (auto simp: cancelOtpReset_def split: option.splits)
  with acct True show ?thesis by auto
next
  case False
  then obtain timeout key where
    tk: "LoginBase.otpTimeout (props (loginTree acct)) = Some timeout"
        "LoginBase.otpKey (props (loginTree acct)) = Some key"
    by auto
  let ?kit = "cancelOtpReset_kit ai (loginTree acct) timeout key"
  from acct run tk have ak: "awaitApplyKit ai st accountId acct ?kit = (r, st')"
    by (simp add: cancelOtpReset_def)
  have lid: "LoginKit.loginId ?kit = LoginBase.loginId (props (loginTree acct))"
    by (simp add: cancelOtpReset_kit_def)
  have step: "serverStep ai (loginTree acct) ?kit =
      Some \<lparr>httpMethod = defaultMethod ai, path = ''/v2/login/otp'',
            body = KitBody (LoginBase.loginId (props (loginTree acct)))
              (wasChangeOtpPayload ai
                \<lparr>ChangeOtpPayload.otpKey = key, ChangeOtpPayload.otpTimeout = timeout\<rparr>)\<rparr>"
    by (simp add: serverStep_def kitCall_def cancelOtpReset_kit_def)
  obtain r1 st1 where a1: "applyKit ai st (loginTree acct) ?kit = (r1, st1)"
    by (cases "applyKit ai st (loginTree acct) ?kit")
  from ak a1 have st1: "stashes st' = stashes st1"
    by (auto simp: awaitApplyKit_def split: sum.splits)
  from applyKit_cancel_frame [OF a1] st1
  have frame: "map (map_node clearReset) (stashes st') = map (map_node clearReset) (stashes st)"
    by simp
  note whole = awaitApplyKit_state [OF ak]
  from awaitApplyKit_sent [OF step ak]
  have s: "sent st' = sent st @
                  [\<lparr>httpMethod = defaultMethod ai, path = ''/v2/login/otp'',
                    body = KitBody (LoginBase.loginId (props (loginTree acct)))
                      (wasChangeOtpPayload ai
                        \<lparr>ChangeOtpPayload.otpKey = key, ChangeOtpPayload.otpTimeout = timeout\<rparr>)\<rparr>]" .
  show ?thesis
  proof (cases r)
    case (Inl e)
    with ak have same: "stashes st' = stashes st" "accounts st' = accounts st"
      by (auto dest: awaitApplyKit_Inl)
    from Inl same acct frame tk s whole show ?thesis
      by auto
  next
    case (Inr x)
    with ak have ak': "awaitApplyKit ai st accountId acct ?kit = (Inr x, st')" by simp
    note eff = awaitApplyKit_Inr [OF ak' lid]
    let ?acct' = "acct\<lparr>loginTree := Node (clearReset (props (loginTree acct))) (children (loginTree acct))\<rparr>"
    from eff(1) have acc: "accounts st' = (accounts st)(accountId \<mapsto> ?acct')"
      by (simp add: cancelOtpReset_kit_def mergeNode_cancel)
    then have a': "accounts st' accountId = Some ?acct'" by simp
    from eff(2) lid obtain n where
      n: "searchChildren (stashes st) (hasLoginId (LoginBase.loginId (props (loginTree acct)))) = Some n"
         "searchChildren (stashes st') (hasLoginId (LoginBase.loginId (props (loginTree acct)))) =
            Some (Node (clearReset (props n)) (children n))"
      by (auto simp: cancelOtpReset_kit_def mergeNode_cancel)
    from ak' a1 obtain tree' where r1: "r1 = Inr tree'"
      by (auto simp: awaitApplyKit_def split: sum.splits)
    from applyKit_Inr [OF a1 [unfolded r1]] obtain w where
      "updateStashes (stashes st) (hasLoginId (LoginKit.loginId ?kit))
         (mergeNode (LoginKit.stash ?kit)) = Some (w, stashes st1)"
      by blast
    then have upd: "updateChildren (stashes st)
                  (hasLoginId (LoginBase.loginId (props (loginTree acct))))
                  (\<lambda>n. Node (clearReset (props n)) (children n)) = Some (stashes st')"
      by (simp add: updateStashes_children lid st1 mergeNode_cancel_fun)
    have keep: "LoginBase.otpKey (props (loginTree ?acct')) = LoginBase.otpKey (props (loginTree acct))"
         "LoginBase.otpTimeout (props (loginTree ?acct')) = LoginBase.otpTimeout (props (loginTree acct))"
      by (simp_all add: clearReset_def)
    have c1: "\<exists>acct'. accounts st' accountId = Some acct'
            \<and> LoginBase.otpKey (props (loginTree acct')) = LoginBase.otpKey (props (loginTree acct))
            \<and> LoginBase.otpTimeout (props (loginTree acct')) = LoginBase.otpTimeout (props (loginTree acct))"
      using a' keep by blast
    have c3: "\<forall>timeout key.
              LoginBase.otpTimeout (props (loginTree acct)) = Some timeout
            \<and> LoginBase.otpKey (props (loginTree acct)) = Some key \<longrightarrow>
              sent st' = sent st @
                  [\<lparr>httpMethod = defaultMethod ai, path = ''/v2/login/otp'',
                    body = KitBody (LoginBase.loginId (props (loginTree acct)))
                      (wasChangeOtpPayload ai
                        \<lparr>ChangeOtpPayload.otpKey = key, ChangeOtpPayload.otpTimeout = timeout\<rparr>)\<rparr>]"
      using tk s by simp
    have c4: "\<exists>acct' n.
                accounts st' accountId = Some acct'
              \<and> loginTree acct' =
                  Node (clearReset (props (loginTree acct))) (children (loginTree acct))
              \<and> searchChildren (stashes st)
                    (hasLoginId (LoginBase.loginId (props (loginTree acct)))) = Some n
              \<and> searchChildren (stashes st')
                    (hasLoginId (LoginBase.loginId (props (loginTree acct)))) =
                  Some (Node (clearReset (props n)) (children n))"
      using a' n by (intro exI [of _ ?acct'] exI [of _ n]) simp
    from Inr have rr: "r = Inr ()" by simp
    from c1 frame c3 c4 whole acc upd rr show ?thesis by blast
  qed
qed

lemma disableOtp_step:
  "serverStep ai tree (disableOtp_kit tree) =
     Some \<lparr>httpMethod = ''DELETE'', path = ''/v2/login/otp'',
           body = KitBodyNoData (LoginBase.loginId (props tree))\<rparr>"
  by (simp add: serverStep_def disableOtp_kit_def)

lemma disableOtp_sent:
  assumes "accounts st accountId = Some acct" and "disableOtp ai st accountId = (r, st')"
  shows "sent st' = sent st @
           [\<lparr>httpMethod = ''DELETE'', path = ''/v2/login/otp'',
             body = KitBodyNoData (LoginBase.loginId (props (loginTree acct)))\<rparr>]"
proof -
  from assms have "awaitApplyKit ai st accountId acct (disableOtp_kit (loginTree acct)) = (r, st')"
    by (simp add: disableOtp_def)
  from awaitApplyKit_sent [OF disableOtp_step this] show ?thesis .
qed

lemma disableOtp_resolved:
  assumes "accounts st accountId = Some acct" and "disableOtp ai st accountId = (Inr x, st')"
  shows "\<exists>reply. loginServer ai
           \<lparr>httpMethod = ''DELETE'', path = ''/v2/login/otp'',
             body = KitBodyNoData (LoginBase.loginId (props (loginTree acct)))\<rparr> = Success reply"
proof -
  from assms have ak: "awaitApplyKit ai st accountId acct (disableOtp_kit (loginTree acct)) = (Inr x, st')"
    by (simp add: disableOtp_def)
  have lid: "LoginKit.loginId (disableOtp_kit (loginTree acct)) = LoginBase.loginId (props (loginTree acct))"
    by (simp add: disableOtp_kit_def)
  from awaitApplyKit_Inr(3) [OF ak lid] show ?thesis
    by (simp add: disableOtp_step)
qed

lemma disableOtp_rejected:
  assumes "accounts st accountId = Some acct"
      and "\<forall>reply. loginServer ai
           \<lparr>httpMethod = ''DELETE'', path = ''/v2/login/otp'',
             body = KitBodyNoData (LoginBase.loginId (props (loginTree acct)))\<rparr> \<noteq> Success reply"
  shows "\<exists>e. disableOtp ai st accountId =
           (Inl e, st\<lparr>sent := sent st @
             [\<lparr>httpMethod = ''DELETE'', path = ''/v2/login/otp'',
               body = KitBodyNoData (LoginBase.loginId (props (loginTree acct)))\<rparr>]\<rparr>)"
proof -
  from applyKit_rejected [OF disableOtp_step assms(2)] obtain e where
    "applyKit ai st (loginTree acct) (disableOtp_kit (loginTree acct)) =
       (Inl e, st\<lparr>sent := sent st @
             [\<lparr>httpMethod = ''DELETE'', path = ''/v2/login/otp'',
               body = KitBodyNoData (LoginBase.loginId (props (loginTree acct)))\<rparr>]\<rparr>)"
    by blast
  with assms(1) show ?thesis
    by (simp add: disableOtp_def awaitApplyKit_def)
qed

text \<open>\<open>getLoginOtp\<close> is \<open>totp\<close> of the tree's key at the current clock, or nothing.\<close>

lemma getLoginOtp_totp:
  "getLoginOtp ai tree =
     map_option (\<lambda>k. totp ai k (Some (clock ai))) (LoginBase.otpKey (props tree))"
  by (simp add: totp_def getLoginOtp_def split: option.splits)

lemma numeric_code_test_digits: "numeric_code s \<Longrightarrow> test_digits s"
  by (cases s) (simp_all add: numeric_code_def test_digits_def)

text \<open>
  Where the source and the specification's resolution order agree: when no code is given,
  and when the code given is a string of digits or holds no digit at all.
\<close>

lemma getStashOtp_agrees:
  assumes "EdgeAccountOptions.otp opts = None \<or>
           (\<exists>c. EdgeAccountOptions.otp opts = Some c \<and> (numeric_code c \<or> \<not> test_digits c))"
  shows "getStashOtp ai stashNode opts = getStashOtp_spec ai stashNode opts"
proof (cases "EdgeAccountOptions.otp opts")
  case None
  then show ?thesis
    by (simp add: getStashOtp_def getStashOtp_spec_def split: option.splits)
next
  case (Some c)
  with assms have "numeric_code c \<or> \<not> test_digits c" by simp
  then have "test_digits c = numeric_code c"
    using numeric_code_test_digits [of c] by blast
  with Some show ?thesis
    by (simp add: getStashOtp_def getStashOtp_spec_def)
qed

section \<open>The properties of the specification\<close>

text \<open>
  C1.  \<open>applyKit\<close> is all-or-nothing.  For every kit with a payload whose server call gets a
  non-success response, the operation rejects with that response, and the only change of
  the state is the entry in the log of sent calls: the stash trees on disk and the account
  table, which holds the in-memory tree, are what they were, also when the kit is applied
  to an account's tree.  The same holds of every kit that takes a server step, with or
  without a payload, and of a server that cannot be reached.  No rejected \<open>applyKit\<close> changes
  the stashes or the trees, and an \<open>applyKit\<close> that takes a server step resolves only if the
  server answered with success: local state changes only after server success.
\<close>

theorem applyKit_all_or_nothing:
  assumes "LoginKit.server kit = Some payload"
      and "loginServer ai (kitCall ai tree kit payload) = NonSuccess code"
  shows "applyKit ai st tree kit =
           (Inl (ServerError code), st\<lparr>sent := sent st @ [kitCall ai tree kit payload]\<rparr>)
         \<and> stashes (snd (applyKit ai st tree kit)) = stashes st
         \<and> accounts (snd (applyKit ai st tree kit)) = accounts st
         \<and> (tree = loginTree acct \<longrightarrow>
              awaitApplyKit ai st accountId acct kit =
                (Inl (ServerError code), st\<lparr>sent := sent st @ [kitCall ai tree kit payload]\<rparr>))
         \<and> (\<forall>ai' st0 tree0 kit0 e st1.
              applyKit ai' st0 tree0 kit0 = (Inl e, st1) \<longrightarrow>
                stashes st1 = stashes st0 \<and> accounts st1 = accounts st0)
         \<and> (\<forall>ai' st0 tree0 kit0 call c.
              serverStep ai' tree0 kit0 = Some call \<and> loginServer ai' call = NonSuccess c \<longrightarrow>
                applyKit ai' st0 tree0 kit0 =
                  (Inl (ServerError c), st0\<lparr>sent := sent st0 @ [call]\<rparr>))
         \<and> (\<forall>ai' st0 tree0 kit0 call.
              serverStep ai' tree0 kit0 = Some call \<and> loginServer ai' call = Unreachable \<longrightarrow>
                applyKit ai' st0 tree0 kit0 =
                  (Inl NetworkError, st0\<lparr>sent := sent st0 @ [call]\<rparr>))
         \<and> (\<forall>ai' st0 tree0 kit0 call t st1.
              serverStep ai' tree0 kit0 = Some call
              \<and> applyKit ai' st0 tree0 kit0 = (Inr t, st1) \<longrightarrow>
                (\<exists>reply. loginServer ai' call = Success reply))"
proof -
  have step: "serverStep ai tree kit = Some (kitCall ai tree kit payload)"
    using assms(1) by (simp add: serverStep_def)
  have a: "applyKit ai st tree kit =
           (Inl (ServerError code), st\<lparr>sent := sent st @ [kitCall ai tree kit payload]\<rparr>)"
    using applyKit_failed(1) [OF step assms(2)] .
  have b: "tree = loginTree acct \<longrightarrow>
              awaitApplyKit ai st accountId acct kit =
                (Inl (ServerError code), st\<lparr>sent := sent st @ [kitCall ai tree kit payload]\<rparr>)"
    using a by (auto simp: awaitApplyKit_def)
  have c: "\<forall>ai' st0 tree0 kit0 e st1.
              applyKit ai' st0 tree0 kit0 = (Inl e, st1) \<longrightarrow>
                stashes st1 = stashes st0 \<and> accounts st1 = accounts st0"
    by (auto dest: applyKit_Inl)
  have d: "\<forall>ai' st0 tree0 kit0 call c.
              serverStep ai' tree0 kit0 = Some call \<and> loginServer ai' call = NonSuccess c \<longrightarrow>
                applyKit ai' st0 tree0 kit0 =
                  (Inl (ServerError c), st0\<lparr>sent := sent st0 @ [call]\<rparr>)"
    using applyKit_failed(1) by blast
  have e: "\<forall>ai' st0 tree0 kit0 call.
              serverStep ai' tree0 kit0 = Some call \<and> loginServer ai' call = Unreachable \<longrightarrow>
                applyKit ai' st0 tree0 kit0 =
                  (Inl NetworkError, st0\<lparr>sent := sent st0 @ [call]\<rparr>)"
    using applyKit_failed(2) by blast
  have f: "\<forall>ai' st0 tree0 kit0 call t st1.
              serverStep ai' tree0 kit0 = Some call
              \<and> applyKit ai' st0 tree0 kit0 = (Inr t, st1) \<longrightarrow>
                (\<exists>reply. loginServer ai' call = Success reply)"
    using applyKit_resolved by blast
  from a have g: "stashes (snd (applyKit ai st tree kit)) = stashes st"
                 "accounts (snd (applyKit ai st tree kit)) = accounts st"
    by simp_all
  from a g b c d e f show ?thesis by blast
qed

theorem applyKit_all_or_nothing_witness:
  "applyKit ai_fail otpState otpTree (cancelOtpReset_kit ai_fail otpTree 30 ''KEY'') =
     (Inl (ServerError 3),
      otpState\<lparr>sent := [\<lparr>httpMethod = ''POST'', path = ''/v2/login/otp'',
                           body = KitBody ''id0'' ''KEY''\<rparr>]\<rparr>)
   \<and> stashes (snd (applyKit ai_fail otpState otpTree (cancelOtpReset_kit ai_fail otpTree 30 ''KEY'')))
       = stashes otpState
   \<and> accounts (snd (applyKit ai_fail otpState otpTree (cancelOtpReset_kit ai_fail otpTree 30 ''KEY'')))
       = accounts otpState
   \<and> applyKit ai_fail otpState otpTree (disableOtp_kit otpTree) =
     (Inl (ServerError 3),
      otpState\<lparr>sent := [\<lparr>httpMethod = ''DELETE'', path = ''/v2/login/otp'',
                           body = KitBodyNoData ''id0''\<rparr>]\<rparr>)"
proof -
  let ?kit = "cancelOtpReset_kit ai_fail otpTree 30 ''KEY''"
  have payload: "LoginKit.server ?kit = Some ''KEY''"
    by (simp add: cancelOtpReset_kit_def exampleAi_def)
  have call: "kitCall ai_fail otpTree ?kit ''KEY'' =
      \<lparr>httpMethod = ''POST'', path = ''/v2/login/otp'', body = KitBody ''id0'' ''KEY''\<rparr>"
    by (simp add: kitCall_def cancelOtpReset_kit_def exampleAi_def exampleTree_def)
  have fails: "loginServer ai_fail (kitCall ai_fail otpTree ?kit ''KEY'') = NonSuccess 3"
    by (simp add: exampleAi_def)
  have log: "sent otpState = []"
    by (simp add: exampleState_def)
  note t = applyKit_all_or_nothing [OF payload fails, of otpState]
  from t [THEN conjunct1] have "applyKit ai_fail otpState otpTree ?kit =
     (Inl (ServerError 3),
      otpState\<lparr>sent := [\<lparr>httpMethod = ''POST'', path = ''/v2/login/otp'',
                           body = KitBody ''id0'' ''KEY''\<rparr>]\<rparr>)"
    by (simp only: call log append_Nil)
  moreover from t have "stashes (snd (applyKit ai_fail otpState otpTree ?kit)) = stashes otpState"
    by blast
  moreover from t have "accounts (snd (applyKit ai_fail otpState otpTree ?kit)) = accounts otpState"
    by blast
  moreover have "applyKit ai_fail otpState otpTree (disableOtp_kit otpTree) =
     (Inl (ServerError 3),
      otpState\<lparr>sent := [\<lparr>httpMethod = ''DELETE'', path = ''/v2/login/otp'',
                           body = KitBodyNoData ''id0''\<rparr>]\<rparr>)"
  proof -
    have step: "serverStep ai_fail otpTree (disableOtp_kit otpTree) =
        Some \<lparr>httpMethod = ''DELETE'', path = ''/v2/login/otp'', body = KitBodyNoData ''id0''\<rparr>"
      by (simp add: serverStep_def disableOtp_kit_def exampleTree_def)
    have no: "loginServer ai_fail
        \<lparr>httpMethod = ''DELETE'', path = ''/v2/login/otp'', body = KitBodyNoData ''id0''\<rparr>
        = NonSuccess 3"
      by (simp add: exampleAi_def)
    from t step no have "applyKit ai_fail otpState otpTree (disableOtp_kit otpTree) =
        (Inl (ServerError 3),
         otpState\<lparr>sent := sent otpState @
           [\<lparr>httpMethod = ''DELETE'', path = ''/v2/login/otp'',
             body = KitBodyNoData ''id0''\<rparr>]\<rparr>)"
      by blast
    then show ?thesis by (simp only: log append_Nil)
  qed
  ultimately show ?thesis by blast
qed

text \<open>
  C2.  The resolution order of \<open>getStashOtp\<close>.  The source departs from the stated order at
  an explicit \<^verbatim>\<open>otp\<close> option that is short and holds a digit without being a number: for
  \<^verbatim>\<open>opts.otp = "a1"\<close> the source returns the string itself as a raw code, where the stated
  order treats it as a secret and returns \<open>totp\<close> of it.
\<close>

theorem getStashOtp_unanchored_digits:
  "getStashOtp ai stashNode \<lparr>EdgeAccountOptions.otp = Some ''a1'', EdgeAccountOptions.otpKey = k, now = n\<rparr>
     = Some ''a1''
   \<and> getStashOtp_spec ai stashNode \<lparr>EdgeAccountOptions.otp = Some ''a1'', EdgeAccountOptions.otpKey = k, now = n\<rparr>
     = Some (totp ai ''a1'' None)"
  by (simp add: getStashOtp_def getStashOtp_spec_def test_digits_def numeric_code_def digit_def)

text \<open>
  C3.  For an account of the table, \<open>cancelOtpReset\<close> fails with the error
  "Cannot cancel 2FA reset: 2FA is not enabled." exactly when \<^verbatim>\<open>otpTimeout\<close> or \<^verbatim>\<open>otpKey\<close> is
  absent from the login tree; in particular, after a \<open>disableOtp\<close> that succeeded,
  \<open>cancelOtpReset\<close> on the resulting state raises this error and changes nothing.  One
  absent property is enough: a tree with a key and no timeout raises the error, so "exactly
  when both are absent" does not hold.
\<close>

theorem cancelOtpReset_error_iff:
  "(accounts st accountId = Some acct \<longrightarrow>
      (fst (cancelOtpReset ai st accountId) =
          Inl (Error ''Cannot cancel 2FA reset: 2FA is not enabled.''))
      = (LoginBase.otpTimeout (props (loginTree acct)) = None
         \<or> LoginBase.otpKey (props (loginTree acct)) = None))
   \<and> (disableOtp aiD stD accountId = (Inr (), st) \<longrightarrow>
        cancelOtpReset ai st accountId =
          (Inl (Error ''Cannot cancel 2FA reset: 2FA is not enabled.''), st))"
proof (intro conjI impI)
  assume acct: "accounts st accountId = Some acct"
  show "(fst (cancelOtpReset ai st accountId) =
          Inl (Error ''Cannot cancel 2FA reset: 2FA is not enabled.''))
      = (LoginBase.otpTimeout (props (loginTree acct)) = None
         \<or> LoginBase.otpKey (props (loginTree acct)) = None)"
    using acct awaitApplyKit_not_Error [of ai st accountId acct]
    by (auto simp: cancelOtpReset_def split: option.splits)
next
  assume "disableOtp aiD stD accountId = (Inr (), st)"
  from disableOtp_Inr [OF this] obtain acct0 where
    "accounts st = (accounts stD)(accountId \<mapsto>
       acct0\<lparr>loginTree := mergeNode (LoginKit.login (disableOtp_kit (loginTree acct0))) (loginTree acct0)\<rparr>)"
    by blast
  then show "cancelOtpReset ai st accountId =
          (Inl (Error ''Cannot cancel 2FA reset: 2FA is not enabled.''), st)"
    by (simp add: cancelOtpReset_def mergeNode_disable)
qed

theorem cancelOtpReset_error_counterexample:
  "\<not> ((fst (cancelOtpReset ai_ok keyOnlyState ''acct'') =
          Inl (Error ''Cannot cancel 2FA reset: 2FA is not enabled.''))
       = (LoginBase.otpTimeout (props keyOnlyTree) = None
          \<and> LoginBase.otpKey (props keyOnlyTree) = None))"
  by (simp add: cancelOtpReset_def exampleState_def exampleTree_def)

theorem cancelOtpReset_error_iff_witness:
  "accounts keyOnlyState ''acct'' = Some \<lparr>AccountState.login = keyOnlyTree, loginTree = keyOnlyTree\<rparr>
   \<and> ((fst (cancelOtpReset ai_ok keyOnlyState ''acct'') =
          Inl (Error ''Cannot cancel 2FA reset: 2FA is not enabled.''))
      = (LoginBase.otpTimeout (props keyOnlyTree) = None
         \<or> LoginBase.otpKey (props keyOnlyTree) = None))
   \<and> fst (disableOtp ai_ok otpState ''acct'') = Inr ()
   \<and> cancelOtpReset ai_ok (snd (disableOtp ai_ok otpState ''acct'')) ''acct'' =
        (Inl (Error ''Cannot cancel 2FA reset: 2FA is not enabled.''),
         snd (disableOtp ai_ok otpState ''acct''))"
proof -
  have a: "accounts keyOnlyState ''acct'' =
      Some \<lparr>AccountState.login = keyOnlyTree, loginTree = keyOnlyTree\<rparr>"
    by (simp add: exampleState_def)
  have d: "fst (disableOtp ai_ok otpState ''acct'') = Inr ()"
    by (simp add: op_defs example_defs)
  then have d': "disableOtp ai_ok otpState ''acct'' = (Inr (), snd (disableOtp ai_ok otpState ''acct''))"
    by (simp add: prod_eq_iff)
  note t1 = cancelOtpReset_error_iff [where st = keyOnlyState and accountId = "''acct''"
      and acct = "\<lparr>AccountState.login = keyOnlyTree, loginTree = keyOnlyTree\<rparr>"
      and ai = ai_ok and aiD = ai_ok and stD = otpState]
  note t2 = cancelOtpReset_error_iff [where st = "snd (disableOtp ai_ok otpState ''acct'')"
      and accountId = "''acct''"
      and acct = "\<lparr>AccountState.login = keyOnlyTree, loginTree = keyOnlyTree\<rparr>"
      and ai = ai_ok and aiD = ai_ok and stD = otpState]
  from t1 [THEN conjunct1] a have "(fst (cancelOtpReset ai_ok keyOnlyState ''acct'') =
          Inl (Error ''Cannot cancel 2FA reset: 2FA is not enabled.''))
      = (LoginBase.otpTimeout (props keyOnlyTree) = None
         \<or> LoginBase.otpKey (props keyOnlyTree) = None)"
    by simp
  moreover from t2 [THEN conjunct2] d' have "cancelOtpReset ai_ok (snd (disableOtp ai_ok otpState ''acct'')) ''acct'' =
        (Inl (Error ''Cannot cancel 2FA reset: 2FA is not enabled.''),
         snd (disableOtp ai_ok otpState ''acct''))"
    by blast
  ultimately show ?thesis using a d by blast
qed

text \<open>
  C4.  For an account of the table, \<open>repairOtp\<close> fails with an error when
  \<^verbatim>\<open>passwordAuth\<close> is absent.  When it is present and the stash of the account is found (by
  \<^verbatim>\<open>getStashById\<close> in \<^verbatim>\<open>otp.js\<close>; in the later revision through the tree's user name, which
  must be present, and the login's \<^verbatim>\<open>appId\<close>), it calls \<open>serverLogin\<close> with a request made of
  the login's \<^verbatim>\<open>userId\<close>, the base64 text of its \<^verbatim>\<open>passwordAuth\<close> and \<open>totp\<close> of the candidate
  key, and with \<^verbatim>\<open>now = stashTree.lastLogin\<close> as the only option; what \<open>serverLogin\<close> does
  is the whole effect of the call.  A password alone is not enough for the request to be
  made.  When \<^verbatim>\<open>getStashById\<close> fails, \<^verbatim>\<open>otp.js\<close> raises its error; in the later revision a
  tree without a user name raises "Cannot sync: missing username", a failing \<^verbatim>\<open>getStash\<close>
  raises its error, and a stash tree without a node of the login's \<^verbatim>\<open>appId\<close> raises "Cannot
  sync: missing on-disk data".  In each of these cases the state is unchanged, so nothing
  is sent.
\<close>

theorem repairOtp_request:
  assumes acct: "accounts st accountId = Some acct"
  shows "(LoginTreeProps.passwordAuth (props (AccountState.login acct)) = None \<longrightarrow>
            (\<exists>e. repairOtp ai st accountId key = (Inl e, st))
          \<and> repairOtp_part_001 ai st accountId key = (Inl (Error ''Cannot sync: missing username''), st))
       \<and> (LoginTreeProps.passwordAuth (props (AccountState.login acct)) = None
          \<and> getStashById ai st (LoginBase.loginId (props (AccountState.login acct))) = Inr found \<longrightarrow>
            repairOtp ai st accountId key =
              (Inl (Error ''Cannot repair OTP: There is no password on this account''), st))
       \<and> (LoginTreeProps.passwordAuth (props (AccountState.login acct)) = Some auth
          \<and> getStashById ai st (LoginBase.loginId (props (AccountState.login acct))) =
              Inr (stashTree, stashNode) \<longrightarrow>
            repairOtp ai st accountId key =
              dropTree (serverLogin ai st stashTree stashNode
                \<lparr>EdgeAccountOptions.otp = None, EdgeAccountOptions.otpKey = None,
                 now = lastLogin (props stashTree)\<rparr>
                \<lparr>LoginRequest.userId = LoginBase.userId (props (AccountState.login acct)),
                 LoginRequest.passwordAuth = base64_stringify ai auth,
                 LoginRequest.otp = totp ai key None\<rparr>
                (\<lambda>_. loginKey (props (AccountState.login acct)))))
       \<and> (LoginTreeProps.passwordAuth (props (AccountState.login acct)) = Some auth
          \<and> LoginBase.username (props (loginTree acct)) = Some name
          \<and> getStash ai st name = Inr stashTree
          \<and> searchTree stashTree
               (\<lambda>s. LoginBase.appId (props s) = LoginBase.appId (props (AccountState.login acct))) =
              Some stashNode \<longrightarrow>
            repairOtp_part_001 ai st accountId key =
              dropTree (serverLogin ai st stashTree stashNode
                \<lparr>EdgeAccountOptions.otp = None, EdgeAccountOptions.otpKey = None,
                 now = lastLogin (props stashTree)\<rparr>
                \<lparr>LoginRequest.userId = LoginBase.userId (props (AccountState.login acct)),
                 LoginRequest.passwordAuth = base64_stringify ai auth,
                 LoginRequest.otp = totp ai key None\<rparr>
                (\<lambda>_. loginKey (props (AccountState.login acct)))))
       \<and> (getStashById ai st (LoginBase.loginId (props (AccountState.login acct))) = Inl err \<longrightarrow>
            repairOtp ai st accountId key = (Inl err, st))
       \<and> (LoginBase.username (props (loginTree acct)) = None \<longrightarrow>
            repairOtp_part_001 ai st accountId key =
              (Inl (Error ''Cannot sync: missing username''), st))
       \<and> (LoginTreeProps.passwordAuth (props (AccountState.login acct)) = Some auth
          \<and> LoginBase.username (props (loginTree acct)) = Some name
          \<and> getStash ai st name = Inl err \<longrightarrow>
            repairOtp_part_001 ai st accountId key = (Inl err, st))
       \<and> (LoginTreeProps.passwordAuth (props (AccountState.login acct)) = Some auth
          \<and> LoginBase.username (props (loginTree acct)) = Some name
          \<and> getStash ai st name = Inr stashTree
          \<and> searchTree stashTree
               (\<lambda>s. LoginBase.appId (props s) = LoginBase.appId (props (AccountState.login acct))) =
              None \<longrightarrow>
            repairOtp_part_001 ai st accountId key =
              (Inl (Error ''Cannot sync: missing on-disk data''), st))"
  using acct
  by (auto simp: repairOtp_def repairOtp_part_001_def dropTree_def Let_def
           split: sum.splits prod.splits option.splits)

theorem repairOtp_request_counterexample:
  "repairOtp_part_001 ai_ok noNameState ''acct'' ''KEY'' =
     (Inl (Error ''Cannot sync: missing username''), noNameState)
   \<and> accounts noNameState ''acct'' = Some \<lparr>AccountState.login = noNameTree, loginTree = noNameTree\<rparr>
   \<and> LoginTreeProps.passwordAuth (props noNameTree) = Some [4, 5]
   \<and> sent noNameState = []"
  by (simp add: repairOtp_part_001_def exampleState_def exampleTree_def)

theorem repairOtp_request_witness:
  "repairOtp ai_ok noPasswordState ''acct'' ''KEY'' =
     (Inl (Error ''Cannot repair OTP: There is no password on this account''), noPasswordState)
   \<and> repairOtp_part_001 ai_ok noPasswordState ''acct'' ''KEY'' =
     (Inl (Error ''Cannot sync: missing username''), noPasswordState)
   \<and> repairOtp ai_ok plainState ''acct'' ''KEY'' =
     (Inr (), plainState\<lparr>sent :=
        [\<lparr>httpMethod = ''POST'', path = ''/v2/login'',
          body = LoginBody \<lparr>LoginRequest.userId = ''uid0'', LoginRequest.passwordAuth = ''bb'',
                             LoginRequest.otp = ''KEY-1''\<rparr>\<rparr>]\<rparr>)
   \<and> repairOtp_part_001 ai_ok plainState ''acct'' ''KEY'' =
     (Inr (), plainState\<lparr>sent :=
        [\<lparr>httpMethod = ''POST'', path = ''/v2/login'',
          body = LoginBody \<lparr>LoginRequest.userId = ''uid0'', LoginRequest.passwordAuth = ''bb'',
                             LoginRequest.otp = ''KEY-1''\<rparr>\<rparr>]\<rparr>)
   \<and> repairOtp_part_001 ai_ok noNameState ''acct'' ''KEY'' =
     (Inl (Error ''Cannot sync: missing username''), noNameState)"
proof -
  let ?stash = "exampleStash ''id0'' None None None"
  have a0: "accounts noPasswordState ''acct'' =
      Some \<lparr>AccountState.login = noPasswordTree, loginTree = noPasswordTree\<rparr>"
    by (simp add: exampleState_def)
  have p0: "LoginTreeProps.passwordAuth (props (AccountState.login
      \<lparr>AccountState.login = noPasswordTree, loginTree = noPasswordTree\<rparr>)) = None"
    by (simp add: exampleTree_def)
  have g0: "getStashById ai_ok noPasswordState (LoginBase.loginId (props (AccountState.login
      \<lparr>AccountState.login = noPasswordTree, loginTree = noPasswordTree\<rparr>))) = Inr (?stash, ?stash)"
    by (simp add: example_defs hasLoginId_def)
  have a1: "accounts plainState ''acct'' =
      Some \<lparr>AccountState.login = plainTree, loginTree = plainTree\<rparr>"
    by (simp add: exampleState_def)
  have p1: "LoginTreeProps.passwordAuth (props (AccountState.login
      \<lparr>AccountState.login = plainTree, loginTree = plainTree\<rparr>)) = Some [4, 5]"
    by (simp add: exampleTree_def)
  have g1: "getStashById ai_ok plainState (LoginBase.loginId (props (AccountState.login
      \<lparr>AccountState.login = plainTree, loginTree = plainTree\<rparr>))) = Inr (?stash, ?stash)"
    by (simp add: example_defs hasLoginId_def)
  have u1: "LoginBase.username (props (loginTree
      \<lparr>AccountState.login = plainTree, loginTree = plainTree\<rparr>)) = Some ''js test 0''"
    by (simp add: exampleTree_def)
  have s1: "getStash ai_ok plainState ''js test 0'' = Inr ?stash"
    by (simp add: example_defs)
  have n1: "searchTree ?stash (\<lambda>s. LoginBase.appId (props s) =
      LoginBase.appId (props (AccountState.login
        \<lparr>AccountState.login = plainTree, loginTree = plainTree\<rparr>))) = Some ?stash"
    by (simp add: example_defs)
  have call: "dropTree (serverLogin ai_ok plainState ?stash ?stash
                \<lparr>EdgeAccountOptions.otp = None, EdgeAccountOptions.otpKey = None,
                 now = lastLogin (props ?stash)\<rparr>
                \<lparr>LoginRequest.userId = LoginBase.userId (props (AccountState.login
                    \<lparr>AccountState.login = plainTree, loginTree = plainTree\<rparr>)),
                 LoginRequest.passwordAuth = base64_stringify ai_ok [4, 5],
                 LoginRequest.otp = totp ai_ok ''KEY'' None\<rparr>
                (\<lambda>_. loginKey (props (AccountState.login
                    \<lparr>AccountState.login = plainTree, loginTree = plainTree\<rparr>))))
      = (Inr (), plainState\<lparr>sent :=
        [\<lparr>httpMethod = ''POST'', path = ''/v2/login'',
          body = LoginBody \<lparr>LoginRequest.userId = ''uid0'', LoginRequest.passwordAuth = ''bb'',
                             LoginRequest.otp = ''KEY-1''\<rparr>\<rparr>]\<rparr>)"
    by (simp add: dropTree_def example_defs totp_def)
  note t0 = repairOtp_request [OF a0, where ai = ai_ok and key = "''KEY''" and found = "(?stash, ?stash)"]
  note t1 = repairOtp_request [OF a1, where ai = ai_ok and key = "''KEY''" and auth = "[4, 5]"
      and stashTree = ?stash and stashNode = ?stash and name = "''js test 0''"]
  from t0 [THEN conjunct2, THEN conjunct1] p0 g0
  have c1: "repairOtp ai_ok noPasswordState ''acct'' ''KEY'' =
     (Inl (Error ''Cannot repair OTP: There is no password on this account''), noPasswordState)"
    by blast
  from t0 [THEN conjunct1] p0
  have c2: "repairOtp_part_001 ai_ok noPasswordState ''acct'' ''KEY'' =
     (Inl (Error ''Cannot sync: missing username''), noPasswordState)"
    by blast
  from t1 [THEN conjunct2, THEN conjunct2, THEN conjunct1] p1 g1
  have c3: "repairOtp ai_ok plainState ''acct'' ''KEY'' =
     (Inr (), plainState\<lparr>sent :=
        [\<lparr>httpMethod = ''POST'', path = ''/v2/login'',
          body = LoginBody \<lparr>LoginRequest.userId = ''uid0'', LoginRequest.passwordAuth = ''bb'',
                             LoginRequest.otp = ''KEY-1''\<rparr>\<rparr>]\<rparr>)"
    unfolding call [symmetric] by blast
  from t1 [THEN conjunct2, THEN conjunct2, THEN conjunct2] p1 u1 s1 n1
  have c4: "repairOtp_part_001 ai_ok plainState ''acct'' ''KEY'' =
     (Inr (), plainState\<lparr>sent :=
        [\<lparr>httpMethod = ''POST'', path = ''/v2/login'',
          body = LoginBody \<lparr>LoginRequest.userId = ''uid0'', LoginRequest.passwordAuth = ''bb'',
                             LoginRequest.otp = ''KEY-1''\<rparr>\<rparr>]\<rparr>)"
    unfolding call [symmetric] by blast
  have a2: "accounts noNameState ''acct'' =
      Some \<lparr>AccountState.login = noNameTree, loginTree = noNameTree\<rparr>"
    by (simp add: exampleState_def)
  have u2: "LoginBase.username (props (loginTree
      \<lparr>AccountState.login = noNameTree, loginTree = noNameTree\<rparr>)) = None"
    by (simp add: exampleTree_def)
  note t2 = repairOtp_request [OF a2, where ai = ai_ok and key = "''KEY''"]
  from t2 u2 have c5: "repairOtp_part_001 ai_ok noNameState ''acct'' ''KEY'' =
     (Inl (Error ''Cannot sync: missing username''), noNameState)"
    by blast
  from c1 c2 c3 c4 c5 show ?thesis by blast
qed

text \<open>
  C5.  \<open>enableOtp\<close> followed by \<open>disableOtp\<close>: when both succeed, the tree of the account
  has a key and a timeout in between, and afterwards neither the tree node nor the stash
  node of its \<^verbatim>\<open>loginId\<close> holds \<^verbatim>\<open>otpKey\<close>, \<^verbatim>\<open>otpTimeout\<close> or \<^verbatim>\<open>otpResetDate\<close>.  The kit of
  \<open>disableOtp\<close> has the method \<^verbatim>\<open>DELETE\<close> on \<^verbatim>\<open>/v2/login/otp\<close> and writes all three
  properties as \<^verbatim>\<open>undefined\<close> in its stash patch and in its login patch.  Its server step
  is a request: \<open>disableOtp\<close> sends exactly one call, \<^verbatim>\<open>DELETE /v2/login/otp\<close> for the tree's
  \<^verbatim>\<open>loginId\<close> and without payload, the server has answered it with success, and with a
  server that does not answer it with success \<open>disableOtp\<close> fails and changes nothing but
  the log of sent calls.
\<close>

theorem enableOtp_disableOtp_roundtrip:
  assumes "enableOtp ai1 st accountId timeout = (Inr (), st1)"
      and "disableOtp ai2 st1 accountId = (Inr (), st2)"
  shows "(\<exists>acct1 key.
           accounts st1 accountId = Some acct1
         \<and> LoginBase.otpKey (props (loginTree acct1)) = Some key
         \<and> LoginBase.otpTimeout (props (loginTree acct1)) = Some timeout
         \<and> sent st2 = sent st1 @
             [\<lparr>httpMethod = ''DELETE'', path = ''/v2/login/otp'',
               body = KitBodyNoData (LoginBase.loginId (props (loginTree acct1)))\<rparr>]
         \<and> (\<exists>reply. loginServer ai2
               \<lparr>httpMethod = ''DELETE'', path = ''/v2/login/otp'',
                 body = KitBodyNoData (LoginBase.loginId (props (loginTree acct1)))\<rparr>
               = Success reply)
         \<and> (\<forall>ai3. (\<forall>reply. loginServer ai3
               \<lparr>httpMethod = ''DELETE'', path = ''/v2/login/otp'',
                 body = KitBodyNoData (LoginBase.loginId (props (loginTree acct1)))\<rparr>
               \<noteq> Success reply) \<longrightarrow>
              (\<exists>e. disableOtp ai3 st1 accountId =
                 (Inl e, st1\<lparr>sent := sent st1 @
                   [\<lparr>httpMethod = ''DELETE'', path = ''/v2/login/otp'',
                     body = KitBodyNoData (LoginBase.loginId (props (loginTree acct1)))\<rparr>]\<rparr>))))
       \<and> (\<exists>acct2 stashNode.
           accounts st2 accountId = Some acct2
         \<and> LoginBase.otpKey (props (loginTree acct2)) = None
         \<and> LoginBase.otpTimeout (props (loginTree acct2)) = None
         \<and> LoginBase.otpResetDate (props (loginTree acct2)) = None
         \<and> searchChildren (stashes st2)
               (hasLoginId (LoginBase.loginId (props (loginTree acct2)))) = Some stashNode
         \<and> LoginBase.otpKey (props stashNode) = None
         \<and> LoginBase.otpTimeout (props stashNode) = None
         \<and> LoginBase.otpResetDate (props stashNode) = None
         \<and> serverMethod (disableOtp_kit tree) = Some ''DELETE''
         \<and> serverPath (disableOtp_kit tree) = ''/v2/login/otp''
         \<and> LoginKit.stash (disableOtp_kit tree) =
               \<lparr>Partial.otpKey = Undefined, Partial.otpResetDate = Undefined,
                Partial.otpTimeout = Undefined\<rparr>
         \<and> LoginKit.login (disableOtp_kit tree) =
               \<lparr>Partial.otpKey = Undefined, Partial.otpResetDate = Undefined,
                Partial.otpTimeout = Undefined\<rparr>)"
proof -
  from enableOtp_effect [OF assms(1)] obtain acct key stR where
    acc1: "accounts st1 = (accounts st)(accountId \<mapsto>
       acct\<lparr>loginTree := mergeNode (LoginKit.login (enableOtp_kit ai1 (loginTree acct) key timeout))
                           (loginTree acct)\<rparr>)"
    by blast
  let ?acct1 = "acct\<lparr>loginTree := mergeNode (LoginKit.login (enableOtp_kit ai1 (loginTree acct) key timeout))
                           (loginTree acct)\<rparr>"
  from acc1 have a1: "accounts st1 accountId = Some ?acct1" by simp
  have fields: "LoginBase.otpKey (props (loginTree ?acct1)) = Some key"
               "LoginBase.otpTimeout (props (loginTree ?acct1)) = Some timeout"
    by (simp_all add: mergeNode_enable)
  note s = disableOtp_sent [OF a1 assms(2)]
  note ok = disableOtp_resolved [OF a1 assms(2)]
  have rej: "\<forall>ai3. (\<forall>reply. loginServer ai3
               \<lparr>httpMethod = ''DELETE'', path = ''/v2/login/otp'',
                 body = KitBodyNoData (LoginBase.loginId (props (loginTree ?acct1)))\<rparr>
               \<noteq> Success reply) \<longrightarrow>
              (\<exists>e. disableOtp ai3 st1 accountId =
                 (Inl e, st1\<lparr>sent := sent st1 @
                   [\<lparr>httpMethod = ''DELETE'', path = ''/v2/login/otp'',
                     body = KitBodyNoData (LoginBase.loginId (props (loginTree ?acct1)))\<rparr>]\<rparr>))"
    using disableOtp_rejected [OF a1] by blast
  have between: "\<exists>acct1 key.
           accounts st1 accountId = Some acct1
         \<and> LoginBase.otpKey (props (loginTree acct1)) = Some key
         \<and> LoginBase.otpTimeout (props (loginTree acct1)) = Some timeout
         \<and> sent st2 = sent st1 @
             [\<lparr>httpMethod = ''DELETE'', path = ''/v2/login/otp'',
               body = KitBodyNoData (LoginBase.loginId (props (loginTree acct1)))\<rparr>]
         \<and> (\<exists>reply. loginServer ai2
               \<lparr>httpMethod = ''DELETE'', path = ''/v2/login/otp'',
                 body = KitBodyNoData (LoginBase.loginId (props (loginTree acct1)))\<rparr>
               = Success reply)
         \<and> (\<forall>ai3. (\<forall>reply. loginServer ai3
               \<lparr>httpMethod = ''DELETE'', path = ''/v2/login/otp'',
                 body = KitBodyNoData (LoginBase.loginId (props (loginTree acct1)))\<rparr>
               \<noteq> Success reply) \<longrightarrow>
              (\<exists>e. disableOtp ai3 st1 accountId =
                 (Inl e, st1\<lparr>sent := sent st1 @
                   [\<lparr>httpMethod = ''DELETE'', path = ''/v2/login/otp'',
                     body = KitBodyNoData (LoginBase.loginId (props (loginTree acct1)))\<rparr>]\<rparr>)))"
    by (rule exI [of _ ?acct1], rule exI [of _ key], intro conjI) (fact a1 fields s ok rej)+
  from disableOtp_Inr [OF assms(2)] obtain acct1 n where
    acc: "accounts st2 = (accounts st1)(accountId \<mapsto>
       acct1\<lparr>loginTree := mergeNode (LoginKit.login (disableOtp_kit (loginTree acct1))) (loginTree acct1)\<rparr>)"
    and sn: "searchChildren (stashes st2) (hasLoginId (LoginBase.loginId (props (loginTree acct1)))) =
               Some (mergeNode (LoginKit.stash (disableOtp_kit (loginTree acct1))) n)"
    by blast
  let ?acct2 = "acct1\<lparr>loginTree := mergeNode (LoginKit.login (disableOtp_kit (loginTree acct1))) (loginTree acct1)\<rparr>"
  let ?node = "mergeNode (LoginKit.stash (disableOtp_kit (loginTree acct1))) n"
  have kit: "serverMethod (disableOtp_kit tree) = Some ''DELETE''
         \<and> serverPath (disableOtp_kit tree) = ''/v2/login/otp''
         \<and> LoginKit.stash (disableOtp_kit tree) =
               \<lparr>Partial.otpKey = Undefined, Partial.otpResetDate = Undefined,
                Partial.otpTimeout = Undefined\<rparr>
         \<and> LoginKit.login (disableOtp_kit tree) =
               \<lparr>Partial.otpKey = Undefined, Partial.otpResetDate = Undefined,
                Partial.otpTimeout = Undefined\<rparr>"
    by (simp add: disableOtp_kit_def)
  from acc have "accounts st2 accountId = Some ?acct2" by simp
  moreover from sn have "searchChildren (stashes st2)
      (hasLoginId (LoginBase.loginId (props (loginTree ?acct2)))) = Some ?node"
    by (simp add: mergeNode_disable)
  ultimately have "\<exists>acct2 stashNode.
           accounts st2 accountId = Some acct2
         \<and> LoginBase.otpKey (props (loginTree acct2)) = None
         \<and> LoginBase.otpTimeout (props (loginTree acct2)) = None
         \<and> LoginBase.otpResetDate (props (loginTree acct2)) = None
         \<and> searchChildren (stashes st2)
               (hasLoginId (LoginBase.loginId (props (loginTree acct2)))) = Some stashNode
         \<and> LoginBase.otpKey (props stashNode) = None
         \<and> LoginBase.otpTimeout (props stashNode) = None
         \<and> LoginBase.otpResetDate (props stashNode) = None
         \<and> serverMethod (disableOtp_kit tree) = Some ''DELETE''
         \<and> serverPath (disableOtp_kit tree) = ''/v2/login/otp''
         \<and> LoginKit.stash (disableOtp_kit tree) =
               \<lparr>Partial.otpKey = Undefined, Partial.otpResetDate = Undefined,
                Partial.otpTimeout = Undefined\<rparr>
         \<and> LoginKit.login (disableOtp_kit tree) =
               \<lparr>Partial.otpKey = Undefined, Partial.otpResetDate = Undefined,
                Partial.otpTimeout = Undefined\<rparr>"
    using kit
    by (intro exI [of _ ?acct2] exI [of _ ?node]) (simp add: mergeNode_disable)
  with between show ?thesis by (rule conjI)
qed

theorem enableOtp_disableOtp_roundtrip_witness:
  "fst (enableOtp ai_ok plainState ''acct'' 30) = Inr ()
   \<and> fst (disableOtp ai_ok (snd (enableOtp ai_ok plainState ''acct'' 30)) ''acct'') = Inr ()
   \<and> sent (snd (disableOtp ai_ok (snd (enableOtp ai_ok plainState ''acct'' 30)) ''acct'')) =
       [\<lparr>httpMethod = ''POST'', path = ''/v2/login/otp'', body = KitBody ''id0'' ''ABBBBBBBBB''\<rparr>,
        \<lparr>httpMethod = ''DELETE'', path = ''/v2/login/otp'', body = KitBodyNoData ''id0''\<rparr>]
   \<and> (\<exists>acct2 stashNode.
           accounts (snd (disableOtp ai_ok (snd (enableOtp ai_ok plainState ''acct'' 30)) ''acct''))
             ''acct'' = Some acct2
         \<and> LoginBase.otpKey (props (loginTree acct2)) = None
         \<and> LoginBase.otpTimeout (props (loginTree acct2)) = None
         \<and> LoginBase.otpResetDate (props (loginTree acct2)) = None
         \<and> searchChildren
              (stashes (snd (disableOtp ai_ok (snd (enableOtp ai_ok plainState ''acct'' 30)) ''acct'')))
               (hasLoginId (LoginBase.loginId (props (loginTree acct2)))) = Some stashNode
         \<and> LoginBase.otpKey (props stashNode) = None
         \<and> LoginBase.otpTimeout (props stashNode) = None
         \<and> LoginBase.otpResetDate (props stashNode) = None
         \<and> serverMethod (disableOtp_kit plainTree) = Some ''DELETE''
         \<and> serverPath (disableOtp_kit plainTree) = ''/v2/login/otp''
         \<and> LoginKit.stash (disableOtp_kit plainTree) =
               \<lparr>Partial.otpKey = Undefined, Partial.otpResetDate = Undefined,
                Partial.otpTimeout = Undefined\<rparr>
         \<and> LoginKit.login (disableOtp_kit plainTree) =
               \<lparr>Partial.otpKey = Undefined, Partial.otpResetDate = Undefined,
                Partial.otpTimeout = Undefined\<rparr>)"
proof -
  have fe: "fst (enableOtp ai_ok plainState ''acct'' 30) = Inr ()"
    by (simp add: op_defs example_defs)
  then have e: "enableOtp ai_ok plainState ''acct'' 30 =
      (Inr (), snd (enableOtp ai_ok plainState ''acct'' 30))"
    by (simp add: prod_eq_iff)
  have fd: "fst (disableOtp ai_ok (snd (enableOtp ai_ok plainState ''acct'' 30)) ''acct'') = Inr ()"
    by (simp add: op_defs example_defs)
  then have d: "disableOtp ai_ok (snd (enableOtp ai_ok plainState ''acct'' 30)) ''acct'' =
      (Inr (), snd (disableOtp ai_ok (snd (enableOtp ai_ok plainState ''acct'' 30)) ''acct''))"
    by (simp add: prod_eq_iff)
  have log1: "sent (snd (enableOtp ai_ok plainState ''acct'' 30)) =
      [\<lparr>httpMethod = ''POST'', path = ''/v2/login/otp'', body = KitBody ''id0'' ''ABBBBBBBBB''\<rparr>]"
    by (simp add: op_defs example_defs upt_rec)
  have "accounts (snd (enableOtp ai_ok plainState ''acct'' 30)) ''acct'' \<noteq> None"
    by (simp add: op_defs example_defs)
  then obtain a where acc1: "accounts (snd (enableOtp ai_ok plainState ''acct'' 30)) ''acct'' = Some a"
    by blast
  have lid1: "LoginBase.loginId (props (loginTree
      (the (accounts (snd (enableOtp ai_ok plainState ''acct'' 30)) ''acct'')))) = ''id0''"
    by (simp add: op_defs example_defs)
  note t = enableOtp_disableOtp_roundtrip [OF e d, of plainTree]
  from t [THEN conjunct1] acc1 lid1
  have "sent (snd (disableOtp ai_ok (snd (enableOtp ai_ok plainState ''acct'' 30)) ''acct'')) =
       sent (snd (enableOtp ai_ok plainState ''acct'' 30)) @
        [\<lparr>httpMethod = ''DELETE'', path = ''/v2/login/otp'', body = KitBodyNoData ''id0''\<rparr>]"
    by auto
  then have log: "sent (snd (disableOtp ai_ok (snd (enableOtp ai_ok plainState ''acct'' 30)) ''acct'')) =
       [\<lparr>httpMethod = ''POST'', path = ''/v2/login/otp'', body = KitBody ''id0'' ''ABBBBBBBBB''\<rparr>,
        \<lparr>httpMethod = ''DELETE'', path = ''/v2/login/otp'', body = KitBodyNoData ''id0''\<rparr>]"
    by (simp add: log1)
  from t [THEN conjunct2] fe fd log show ?thesis by blast
qed

text \<open>
  C6.  \<open>enableOtp\<close> takes the tree's key, passed through \<^verbatim>\<open>fixOtpKey\<close>, when the tree has one,
  and draws nothing; it takes the base32 text of the next ten bytes of the entropy source
  when the tree has none.  Its kit carries the key and the timeout as payload, sets
  \<^verbatim>\<open>otpKey\<close> and \<^verbatim>\<open>otpTimeout\<close> and writes \<^verbatim>\<open>otpResetDate\<close> as \<^verbatim>\<open>undefined\<close> in both patches; so
  after a successful \<open>enableOtp\<close> the tree and the stash node hold that key and timeout and
  no pending reset.
\<close>

theorem enableOtp_key_and_kit:
  "(LoginBase.otpKey (props tree) = Some old \<longrightarrow>
      enableOtp_otpKey ai st tree = (fixOtpKey ai old, st))
   \<and> (LoginBase.otpKey (props tree) = None \<longrightarrow>
      enableOtp_otpKey ai st tree =
        (base32_stringify ai (map (entropy ai) [drawn st ..< drawn st + 10]),
         st\<lparr>drawn := drawn st + 10\<rparr>))
   \<and> LoginKit.server (enableOtp_kit ai tree key timeout) =
        Some (wasChangeOtpPayload ai
          \<lparr>ChangeOtpPayload.otpKey = key, ChangeOtpPayload.otpTimeout = timeout\<rparr>)
   \<and> LoginKit.stash (enableOtp_kit ai tree key timeout) =
        \<lparr>Partial.otpKey = Value key, Partial.otpResetDate = Undefined,
         Partial.otpTimeout = Value timeout\<rparr>
   \<and> LoginKit.login (enableOtp_kit ai tree key timeout) =
        \<lparr>Partial.otpKey = Value key, Partial.otpResetDate = Undefined,
         Partial.otpTimeout = Value timeout\<rparr>
   \<and> (enableOtp ai st accountId timeout = (Inr (), st') \<longrightarrow>
        (\<exists>acct acct' n.
            accounts st accountId = Some acct
          \<and> accounts st' accountId = Some acct'
          \<and> LoginBase.otpKey (props (loginTree acct')) =
               Some (fst (enableOtp_otpKey ai st (loginTree acct)))
          \<and> LoginBase.otpTimeout (props (loginTree acct')) = Some timeout
          \<and> LoginBase.otpResetDate (props (loginTree acct')) = None
          \<and> searchChildren (stashes st')
                (hasLoginId (LoginBase.loginId (props (loginTree acct)))) = Some n
          \<and> LoginBase.otpKey (props n) = Some (fst (enableOtp_otpKey ai st (loginTree acct)))
          \<and> LoginBase.otpTimeout (props n) = Some timeout
          \<and> LoginBase.otpResetDate (props n) = None))"
proof (intro conjI impI)
  assume run: "enableOtp ai st accountId timeout = (Inr (), st')"
  from enableOtp_effect [OF run] obtain acct key stR n where
    acct: "accounts st accountId = Some acct"
    and key: "enableOtp_otpKey ai st (loginTree acct) = (key, stR)"
    and acc: "accounts st' = (accounts st)(accountId \<mapsto>
             acct\<lparr>loginTree := mergeNode (LoginKit.login (enableOtp_kit ai (loginTree acct) key timeout))
                                 (loginTree acct)\<rparr>)"
    and sn: "searchChildren (stashes st') (hasLoginId (LoginBase.loginId (props (loginTree acct)))) =
             Some (mergeNode (LoginKit.stash (enableOtp_kit ai (loginTree acct) key timeout)) n)"
    by blast
  let ?acct' = "acct\<lparr>loginTree := mergeNode (LoginKit.login (enableOtp_kit ai (loginTree acct) key timeout))
                                 (loginTree acct)\<rparr>"
  let ?n = "mergeNode (LoginKit.stash (enableOtp_kit ai (loginTree acct) key timeout)) n"
  from acct key acc sn show "\<exists>acct acct' n.
            accounts st accountId = Some acct
          \<and> accounts st' accountId = Some acct'
          \<and> LoginBase.otpKey (props (loginTree acct')) =
               Some (fst (enableOtp_otpKey ai st (loginTree acct)))
          \<and> LoginBase.otpTimeout (props (loginTree acct')) = Some timeout
          \<and> LoginBase.otpResetDate (props (loginTree acct')) = None
          \<and> searchChildren (stashes st')
                (hasLoginId (LoginBase.loginId (props (loginTree acct)))) = Some n
          \<and> LoginBase.otpKey (props n) = Some (fst (enableOtp_otpKey ai st (loginTree acct)))
          \<and> LoginBase.otpTimeout (props n) = Some timeout
          \<and> LoginBase.otpResetDate (props n) = None"
    by (intro exI [of _ acct] exI [of _ ?acct'] exI [of _ ?n]) (simp add: mergeNode_enable)
qed (simp_all add: enableOtp_otpKey_def random_def enableOtp_kit_def)

theorem enableOtp_key_and_kit_witness:
  "enableOtp_otpKey ai_ok otpState
      (exampleTree (Some ''js test 0'') (Some ''K-EY'') (Some 30) None None) = (''KEY'', otpState)
   \<and> enableOtp_otpKey ai_ok plainState plainTree = (''ABBBBBBBBB'', plainState\<lparr>drawn := 10\<rparr>)
   \<and> (\<exists>acct' n.
            accounts (snd (enableOtp ai_ok plainState ''acct'' 30)) ''acct'' = Some acct'
          \<and> LoginBase.otpKey (props (loginTree acct')) = Some ''ABBBBBBBBB''
          \<and> LoginBase.otpTimeout (props (loginTree acct')) = Some 30
          \<and> LoginBase.otpResetDate (props (loginTree acct')) = None
          \<and> searchChildren (stashes (snd (enableOtp ai_ok plainState ''acct'' 30)))
                (hasLoginId ''id0'') = Some n
          \<and> LoginBase.otpKey (props n) = Some ''ABBBBBBBBB''
          \<and> LoginBase.otpTimeout (props n) = Some 30
          \<and> LoginBase.otpResetDate (props n) = None)"
proof -
  have k1: "LoginBase.otpKey (props (exampleTree (Some ''js test 0'') (Some ''K-EY'') (Some 30) None None))
      = Some ''K-EY''"
    by (simp add: exampleTree_def)
  have k2: "LoginBase.otpKey (props plainTree) = None"
    by (simp add: exampleTree_def)
  have f: "fixOtpKey ai_ok ''K-EY'' = ''KEY''"
    by (simp add: exampleAi_def)
  have b: "base32_stringify ai_ok (map (entropy ai_ok) [drawn plainState ..< drawn plainState + 10])
      = ''ABBBBBBBBB''" "drawn plainState + 10 = 10"
    by (simp_all add: example_defs upt_rec)
  have a: "accounts plainState ''acct'' = Some \<lparr>AccountState.login = plainTree, loginTree = plainTree\<rparr>"
          "LoginBase.loginId (props plainTree) = ''id0''"
    by (simp_all add: example_defs)
  have "fst (enableOtp ai_ok plainState ''acct'' 30) = Inr ()"
    by (simp add: op_defs example_defs)
  then have run: "enableOtp ai_ok plainState ''acct'' 30 =
      (Inr (), snd (enableOtp ai_ok plainState ''acct'' 30))"
    by (simp add: prod_eq_iff)
  note t1 = enableOtp_key_and_kit [where tree = "exampleTree (Some ''js test 0'') (Some ''K-EY'') (Some 30) None None"
      and old = "''K-EY''" and ai = ai_ok and st = otpState, THEN conjunct1]
  note t2 = enableOtp_key_and_kit [where tree = plainTree and ai = ai_ok and st = plainState
      and accountId = "''acct''" and timeout = 30 and st' = "snd (enableOtp ai_ok plainState ''acct'' 30)",
      THEN conjunct2]
  from t1 k1 f have c1: "enableOtp_otpKey ai_ok otpState
      (exampleTree (Some ''js test 0'') (Some ''K-EY'') (Some 30) None None) = (''KEY'', otpState)"
    by simp
  from t2 [THEN conjunct1] k2 b
  have c2: "enableOtp_otpKey ai_ok plainState plainTree = (''ABBBBBBBBB'', plainState\<lparr>drawn := 10\<rparr>)"
    by simp
  from t2 run have "\<exists>acct acct' n.
            accounts plainState ''acct'' = Some acct
          \<and> accounts (snd (enableOtp ai_ok plainState ''acct'' 30)) ''acct'' = Some acct'
          \<and> LoginBase.otpKey (props (loginTree acct')) =
               Some (fst (enableOtp_otpKey ai_ok plainState (loginTree acct)))
          \<and> LoginBase.otpTimeout (props (loginTree acct')) = Some 30
          \<and> LoginBase.otpResetDate (props (loginTree acct')) = None
          \<and> searchChildren (stashes (snd (enableOtp ai_ok plainState ''acct'' 30)))
                (hasLoginId (LoginBase.loginId (props (loginTree acct)))) = Some n
          \<and> LoginBase.otpKey (props n) = Some (fst (enableOtp_otpKey ai_ok plainState (loginTree acct)))
          \<and> LoginBase.otpTimeout (props n) = Some 30
          \<and> LoginBase.otpResetDate (props n) = None"
    by blast
  then have c3: "\<exists>acct' n.
            accounts (snd (enableOtp ai_ok plainState ''acct'' 30)) ''acct'' = Some acct'
          \<and> LoginBase.otpKey (props (loginTree acct')) = Some ''ABBBBBBBBB''
          \<and> LoginBase.otpTimeout (props (loginTree acct')) = Some 30
          \<and> LoginBase.otpResetDate (props (loginTree acct')) = None
          \<and> searchChildren (stashes (snd (enableOtp ai_ok plainState ''acct'' 30)))
                (hasLoginId ''id0'') = Some n
          \<and> LoginBase.otpKey (props n) = Some ''ABBBBBBBBB''
          \<and> LoginBase.otpTimeout (props n) = Some 30
          \<and> LoginBase.otpResetDate (props n) = None"
    by (auto simp: a c2)
  from c1 c2 c3 show ?thesis by blast
qed

text \<open>
  C7.  \<open>cancelOtpReset\<close> never changes the tree's \<^verbatim>\<open>otpKey\<close> and \<^verbatim>\<open>otpTimeout\<close>, and apart from
  \<^verbatim>\<open>otpResetDate\<close> properties the stash trees stay as they are.  When the tree has a key and a
  timeout, the one call it sends carries exactly these two as payload.  It changes nothing
  of the state but the account table, the stash trees and the log of sent calls.  When it
  succeeds, the account table is the old one with this account's tree replaced by the old
  tree with \<^verbatim>\<open>otpResetDate\<close> deleted, every other account being kept; and the stash trees
  are the old ones with one node replaced, the first in pre-order with the tree's
  \<^verbatim>\<open>loginId\<close>, by itself with \<^verbatim>\<open>otpResetDate\<close> deleted.  When it does not succeed, the account
  table and the stash trees are the old ones.
\<close>

theorem cancelOtpReset_frame:
  assumes acct: "accounts st accountId = Some acct"
      and run: "cancelOtpReset ai st accountId = (r, st')"
  shows "(\<exists>acct'. accounts st' accountId = Some acct'
            \<and> LoginBase.otpKey (props (loginTree acct')) = LoginBase.otpKey (props (loginTree acct))
            \<and> LoginBase.otpTimeout (props (loginTree acct')) = LoginBase.otpTimeout (props (loginTree acct)))
       \<and> map (map_node clearReset) (stashes st') = map (map_node clearReset) (stashes st)
       \<and> (\<forall>timeout key.
              LoginBase.otpTimeout (props (loginTree acct)) = Some timeout
            \<and> LoginBase.otpKey (props (loginTree acct)) = Some key \<longrightarrow>
              sent st' = sent st @
                  [\<lparr>httpMethod = defaultMethod ai, path = ''/v2/login/otp'',
                    body = KitBody (LoginBase.loginId (props (loginTree acct)))
                      (wasChangeOtpPayload ai
                        \<lparr>ChangeOtpPayload.otpKey = key, ChangeOtpPayload.otpTimeout = timeout\<rparr>)\<rparr>])
       \<and> (r = Inr () \<longrightarrow>
            (\<exists>acct' n.
                accounts st' accountId = Some acct'
              \<and> loginTree acct' =
                  Node (clearReset (props (loginTree acct))) (children (loginTree acct))
              \<and> searchChildren (stashes st)
                    (hasLoginId (LoginBase.loginId (props (loginTree acct)))) = Some n
              \<and> searchChildren (stashes st')
                    (hasLoginId (LoginBase.loginId (props (loginTree acct)))) =
                  Some (Node (clearReset (props n)) (children n))))
       \<and> st' = st\<lparr>accounts := accounts st', stashes := stashes st', sent := sent st'\<rparr>
       \<and> (r = Inr () \<longrightarrow>
              accounts st' = (accounts st)(accountId \<mapsto>
                acct\<lparr>loginTree :=
                  Node (clearReset (props (loginTree acct))) (children (loginTree acct))\<rparr>)
            \<and> updateChildren (stashes st)
                  (hasLoginId (LoginBase.loginId (props (loginTree acct))))
                  (\<lambda>n. Node (clearReset (props n)) (children n)) = Some (stashes st')
            \<and> oneChild
                  (\<lambda>n n'. LoginBase.loginId (props n) = LoginBase.loginId (props (loginTree acct))
                          \<and> n' = Node (clearReset (props n)) (children n))
                  (stashes st) (stashes st'))
       \<and> (r \<noteq> Inr () \<longrightarrow> accounts st' = accounts st \<and> stashes st' = stashes st)"
proof -
  note base = cancelOtpReset_effect [OF acct run]
  have "r = Inr () \<longrightarrow> oneChild
                  (\<lambda>n n'. LoginBase.loginId (props n) = LoginBase.loginId (props (loginTree acct))
                          \<and> n' = Node (clearReset (props n)) (children n))
                  (stashes st) (stashes st')"
  proof
    assume "r = Inr ()"
    with base have "updateChildren (stashes st)
                  (hasLoginId (LoginBase.loginId (props (loginTree acct))))
                  (\<lambda>n. Node (clearReset (props n)) (children n)) = Some (stashes st')"
      by blast
    from update_oneNode(2) [OF this] show "oneChild
                  (\<lambda>n n'. LoginBase.loginId (props n) = LoginBase.loginId (props (loginTree acct))
                          \<and> n' = Node (clearReset (props n)) (children n))
                  (stashes st) (stashes st')"
      by (simp add: hasLoginId_def)
  qed
  with base show ?thesis by blast
qed

theorem cancelOtpReset_frame_witness:
  "(\<exists>acct'. accounts (snd (cancelOtpReset ai_ok otpState ''acct'')) ''acct'' = Some acct'
            \<and> LoginBase.otpKey (props (loginTree acct')) = Some ''KEY''
            \<and> LoginBase.otpTimeout (props (loginTree acct')) = Some 30)
   \<and> fst (cancelOtpReset ai_ok otpState ''acct'') = Inr ()
   \<and> (\<exists>n. searchChildren (stashes (snd (cancelOtpReset ai_ok otpState ''acct'')))
                    (hasLoginId ''id0'') =
                  Some (Node (clearReset (props n)) (children n)))
   \<and> sent (snd (cancelOtpReset ai_ok otpState ''acct'')) =
        [\<lparr>httpMethod = ''POST'', path = ''/v2/login/otp'', body = KitBody ''id0'' ''KEY''\<rparr>]
   \<and> accounts (snd (cancelOtpReset ai_ok otpState ''acct'')) =
        (accounts otpState)(''acct'' \<mapsto>
          \<lparr>AccountState.login = otpTree,
           loginTree = Node (clearReset (props otpTree)) (children otpTree)\<rparr>)
   \<and> stashes (snd (cancelOtpReset ai_ok otpState ''acct'')) =
        [exampleStash ''id9'' None None None, exampleStash ''id0'' (Some ''KEY'') (Some 30) None]"
proof -
  have a: "accounts otpState ''acct'' = Some \<lparr>AccountState.login = otpTree, loginTree = otpTree\<rparr>"
    by (simp add: exampleState_def)
  have f: "fst (cancelOtpReset ai_ok otpState ''acct'') = Inr ()"
    by (simp add: op_defs example_defs)
  then have run: "cancelOtpReset ai_ok otpState ''acct'' =
      (Inr (), snd (cancelOtpReset ai_ok otpState ''acct''))"
    by (simp add: prod_eq_iff)
  have v: "LoginBase.otpKey (props otpTree) = Some ''KEY''"
          "LoginBase.otpTimeout (props otpTree) = Some 30"
          "LoginBase.loginId (props otpTree) = ''id0''"
          "sent otpState = []" "defaultMethod ai_ok = ''POST''"
          "wasChangeOtpPayload ai_ok
             \<lparr>ChangeOtpPayload.otpKey = ''KEY'', ChangeOtpPayload.otpTimeout = 30\<rparr> = ''KEY''"
    by (simp_all add: example_defs)
  note t = cancelOtpReset_frame [OF a run]
  note t1 = t [THEN conjunct1]
  note t3 = t [THEN conjunct2, THEN conjunct2, THEN conjunct1]
  note t4 = t [THEN conjunct2, THEN conjunct2, THEN conjunct2, THEN conjunct1]
  note t6 = t [THEN conjunct2, THEN conjunct2, THEN conjunct2, THEN conjunct2, THEN conjunct2,
              THEN conjunct1]
  from t1 have c1: "\<exists>acct'. accounts (snd (cancelOtpReset ai_ok otpState ''acct'')) ''acct'' = Some acct'
            \<and> LoginBase.otpKey (props (loginTree acct')) = Some ''KEY''
            \<and> LoginBase.otpTimeout (props (loginTree acct')) = Some 30"
    by (simp add: v)
  from t4 have c2: "\<exists>n. searchChildren (stashes (snd (cancelOtpReset ai_ok otpState ''acct'')))
                    (hasLoginId ''id0'') =
                  Some (Node (clearReset (props n)) (children n))"
    by (auto simp: v)
  from t3 have c3: "sent (snd (cancelOtpReset ai_ok otpState ''acct'')) =
        [\<lparr>httpMethod = ''POST'', path = ''/v2/login/otp'', body = KitBody ''id0'' ''KEY''\<rparr>]"
    by (simp add: v)
  from t6 have c4: "accounts (snd (cancelOtpReset ai_ok otpState ''acct'')) =
        (accounts otpState)(''acct'' \<mapsto>
          \<lparr>AccountState.login = otpTree,
           loginTree = Node (clearReset (props otpTree)) (children otpTree)\<rparr>)"
    by simp
  from t6 have "updateChildren (stashes otpState) (hasLoginId ''id0'')
        (\<lambda>n. Node (clearReset (props n)) (children n)) =
        Some (stashes (snd (cancelOtpReset ai_ok otpState ''acct'')))"
    by (simp add: v)
  then have c5: "stashes (snd (cancelOtpReset ai_ok otpState ''acct'')) =
        [exampleStash ''id9'' None None None, exampleStash ''id0'' (Some ''KEY'') (Some 30) None]"
    by (simp add: exampleState_def exampleStash_def hasLoginId_def clearReset_def)
  from c1 f c2 c3 c4 c5 show ?thesis by blast
qed

text \<open>
  C8.  \<open>resetOtp\<close> sends one call, \<^verbatim>\<open>DELETE /v2/login/otp\<close>, whose body is the base64 text of
  the hashed user name as \<^verbatim>\<open>userId\<close> and the reset token as \<^verbatim>\<open>otpResetAuth\<close>; the user
  name enters only through its hash, so two names with the same hash give the same run.
  When the server answers with success and the reply cleans to a payload, the result is
  the payload's \<^verbatim>\<open>otpResetDate\<close>.
\<close>

theorem resetOtp_request:
  "snd (resetOtp ai st name resetToken) =
     st\<lparr>sent := sent st @
        [\<lparr>httpMethod = ''DELETE'', path = ''/v2/login/otp'',
          body = ResetBody \<lparr>OtpResetRequest.userId = base64_stringify ai (hashUsername ai name),
                             otpResetAuth = resetToken\<rparr>\<rparr>]\<rparr>
   \<and> (loginServer ai
         \<lparr>httpMethod = ''DELETE'', path = ''/v2/login/otp'',
          body = ResetBody \<lparr>OtpResetRequest.userId = base64_stringify ai (hashUsername ai name),
                             otpResetAuth = resetToken\<rparr>\<rparr> = Success reply
        \<and> asOtpResetPayload ai reply = Inr payload
      \<longrightarrow> fst (resetOtp ai st name resetToken) = Inr (OtpResetPayload.otpResetDate payload))
   \<and> (hashUsername ai name = hashUsername ai name'
      \<longrightarrow> resetOtp ai st name resetToken = resetOtp ai st name' resetToken)"
  by (simp add: resetOtp_def loginFetch_def Let_def split: response.splits sum.splits)

theorem resetOtp_request_witness:
  "sent (snd (resetOtp (exampleAi (Success ''{}''))
      (exampleState (exampleTree None None None None None) (exampleStash ''id0'' None None None))
      ''js test 0'' ''token'')) =
     [\<lparr>httpMethod = ''DELETE'', path = ''/v2/login/otp'',
       body = ResetBody \<lparr>OtpResetRequest.userId = ''abbbbbbbb'', otpResetAuth = ''token''\<rparr>\<rparr>]
   \<and> fst (resetOtp (exampleAi (Success ''{}''))
      (exampleState (exampleTree None None None None None) (exampleStash ''id0'' None None None))
      ''js test 0'' ''token'') = Inr 2"
proof -
  have srv: "loginServer (exampleAi (Success ''{}''))
         \<lparr>httpMethod = ''DELETE'', path = ''/v2/login/otp'',
          body = ResetBody \<lparr>OtpResetRequest.userId =
               base64_stringify (exampleAi (Success ''{}'')) (hashUsername (exampleAi (Success ''{}'')) ''js test 0''),
                             otpResetAuth = ''token''\<rparr>\<rparr> = Success ''{}''"
    by (simp add: exampleAi_def)
  have cl: "asOtpResetPayload (exampleAi (Success ''{}'')) ''{}'' = Inr \<lparr>OtpResetPayload.otpResetDate = 2\<rparr>"
    by (simp add: exampleAi_def)
  have enc: "base64_stringify (exampleAi (Success ''{}'')) (hashUsername (exampleAi (Success ''{}'')) ''js test 0'') = ''abbbbbbbb''"
    by (simp add: exampleAi_def)
  have s0: "sent (exampleState (exampleTree None None None None None) (exampleStash ''id0'' None None None)) = []"
    by (simp add: exampleState_def)
  note t = resetOtp_request [of "exampleAi (Success ''{}'')"
      "exampleState (exampleTree None None None None None) (exampleStash ''id0'' None None None)"
      "''js test 0''" "''token''" "''{}''" "\<lparr>OtpResetPayload.otpResetDate = 2\<rparr>" "''js test 0''"]
  from t have "snd (resetOtp (exampleAi (Success ''{}''))
      (exampleState (exampleTree None None None None None) (exampleStash ''id0'' None None None))
      ''js test 0'' ''token'') =
     (exampleState (exampleTree None None None None None) (exampleStash ''id0'' None None None))
       \<lparr>sent := sent (exampleState (exampleTree None None None None None)
                       (exampleStash ''id0'' None None None)) @
        [\<lparr>httpMethod = ''DELETE'', path = ''/v2/login/otp'',
          body = ResetBody \<lparr>OtpResetRequest.userId =
             base64_stringify (exampleAi (Success ''{}''))
               (hashUsername (exampleAi (Success ''{}'')) ''js test 0''),
             otpResetAuth = ''token''\<rparr>\<rparr>]\<rparr>"
    by (rule conjunct1)
  then have log: "sent (snd (resetOtp (exampleAi (Success ''{}''))
      (exampleState (exampleTree None None None None None) (exampleStash ''id0'' None None None))
      ''js test 0'' ''token'')) =
     [\<lparr>httpMethod = ''DELETE'', path = ''/v2/login/otp'',
       body = ResetBody \<lparr>OtpResetRequest.userId = ''abbbbbbbb'', otpResetAuth = ''token''\<rparr>\<rparr>]"
    by (simp add: enc s0)
  from t srv cl have "fst (resetOtp (exampleAi (Success ''{}''))
      (exampleState (exampleTree None None None None None) (exampleStash ''id0'' None None None))
      ''js test 0'' ''token'') = Inr 2"
    by (simp del: split_paired_All)
  with log show ?thesis by blast
qed

text \<open>
  C10.  For an account id that is not in the account table, \<open>repairOtp\<close> (in both revisions)
  returns without an error and leaves the whole state as it was: no call is added to the
  log of sent calls, whatever \<open>serverLogin\<close> would do, and the stashes and trees are
  untouched.
\<close>

theorem repairOtp_unknown_account:
  "accounts st accountId = None \<Longrightarrow>
     repairOtp ai st accountId key = (Inr (), st) \<and>
     repairOtp_part_001 ai st accountId key = (Inr (), st)"
  by (simp add: repairOtp_def repairOtp_part_001_def)

theorem repairOtp_unknown_account_witness:
  "repairOtp ai_ok plainState ''nobody'' ''KEY'' = (Inr (), plainState)
   \<and> repairOtp_part_001 ai_ok plainState ''nobody'' ''KEY'' = (Inr (), plainState)"
proof -
  have "accounts plainState ''nobody'' = None"
    by (simp add: exampleState_def)
  then show ?thesis by (rule repairOtp_unknown_account)
qed

end
